theory Spec2Isabelle
  imports Complex_Main "HOL-Library.Word" "HOL-Library.Multiset"
begin

unbundle bit_operations_syntax

section \<open>Entity model (repository.go)\<close>

text \<open>
  The Go structs of repository.go as records, field for field. Conventions:
  \<^item> \<open>uint\<close> primary and foreign keys are \<open>nat\<close>; no arithmetic of the program can make
    them overflow.
  \<^item> \<open>int\<close> (the sequence number, the quantity) is \<open>int\<close>: the program only compares,
    prints and converts these values.
  \<^item> \<open>float64\<close> amounts (price, discount, penalty) are \<open>real\<close> numbers. This is an
    idealisation: the rounding, the infinities and the NaN of \<open>float64\<close> are not
    modelled, so only those properties of \<open>SubTotal\<close> and \<open>Total\<close> are stated below in
    which no rounded sum of products occurs (an invoice without lines).
  \<^item> a pointer field (\<open>*int\<close>, \<open>*string\<close>) is an \<open>option\<close>, \<open>None\<close> for nil.
  \<^item> \<open>string\<close> is a list of bytes, as a Go string is.
  \<^item> \<open>uuid.UUID\<close> is \<open>[16]byte\<close>: a list of sixteen bytes.
  \<^item> \<open>time.Time\<close> is the civil date and clock reading it denotes in its own location.
  \<^item> the back references \<open>RemitInformationLine.RemitInformation\<close> and
    \<open>InvoiceLine.Invoice\<close> (tagged \<open>json:"-"\<close>, never loaded by the repository) are
    left out, since a record cannot contain itself: they are at their zero value, as in
    every struct decoded from a request.
\<close>

type_synonym UUID = "8 word list"

record Time =
  year :: int
  month :: nat
  day :: nat
  hour :: nat
  minute :: nat
  second :: nat

record RemitInformationLine =
  ID :: nat
  Key :: string
  Value_ :: string
  RemitInformationID :: nat

record RemitInformation =
  ID :: nat
  Name :: string
  Lines :: "RemitInformationLine list"

record Product =
  ID :: nat
  Name :: string
  Description :: "string option"
  Price :: real

record Company =
  ID :: nat
  Name :: string
  Document :: string
  Address :: string

record InvoiceLine =
  ID :: nat
  InvoiceID :: nat
  ProductID :: nat
  Product :: Product
  Quantity :: int
  Description :: "string option"

record Invoice =
  ID :: nat
  UUID :: UUID
  Number :: "int option"
  AdditionalInformation :: "string option"
  Discount :: real
  Penalty :: real
  Paid :: bool
  IssueDate :: Time
  DueDate :: Time
  RemitInformationID :: nat
  RemitInformation :: RemitInformation
  CompanyID :: nat
  Company :: Company
  ClientID :: nat
  Client :: Company
  InvoiceLines :: "InvoiceLine list"

section \<open>Library functions used by the invoice methods\<close>

text \<open>\<open>strconv.Itoa\<close>: the decimal digits, most significant first, after a minus sign
  for a negative number.\<close>

fun digits :: "nat \<Rightarrow> string" where
  "digits n = (if n < 10 then [''0123456789'' ! n]
               else digits (n div 10) @ [''0123456789'' ! (n mod 10)])"

declare digits.simps [simp del]

definition Itoa :: "int \<Rightarrow> string" where
  "Itoa i = (if i < 0 then CHR ''-'' # digits (nat (- i)) else digits (nat i))"

text \<open>\<open>appendInt\<close> of package time: the decimal digits of \<open>x\<close>, padded with zeros on the
  left up to \<open>width\<close> digits, after a minus sign for a negative number. More digits than
  \<open>width\<close> are all printed.\<close>

definition appendInt :: "int \<Rightarrow> nat \<Rightarrow> string" where
  "appendInt x width =
     (let u = digits (nat \<bar>x\<bar>)
      in (if x < 0 then ''-'' else '''') @ replicate (width - length u) CHR ''0'' @ u)"

text \<open>\<open>Time.Format("20060102")\<close>: the year on four digits, the month and the day on two.\<close>

definition Format_20060102 :: "Time \<Rightarrow> string" where
  "Format_20060102 t = appendInt (year t) 4 @ appendInt (int (month t)) 2 @ appendInt (int (day t)) 2"

text \<open>\<open>strings.ReplaceAll(s, old, new)\<close> for a pattern \<open>old\<close> of one byte: every
  occurrence of the byte is replaced by \<open>new\<close>, the other bytes are kept in order.\<close>

fun ReplaceAll :: "string \<Rightarrow> char \<Rightarrow> string \<Rightarrow> string" where
  "ReplaceAll [] old new = []"
| "ReplaceAll (c # s) old new = (if c = old then new else [c]) @ ReplaceAll s old new"

text \<open>\<open>UUID.String\<close>: the sixteen bytes in lower-case hexadecimal, in groups of
  4, 2, 2, 2 and 6 bytes separated by hyphens.\<close>

definition hex_byte :: "8 word \<Rightarrow> string" where
  "hex_byte b = [''0123456789abcdef'' ! (unat b div 16), ''0123456789abcdef'' ! (unat b mod 16)]"

definition encodeHex :: "8 word list \<Rightarrow> string" where
  "encodeHex bs = concat (map hex_byte bs)"

definition UUID_String :: "UUID \<Rightarrow> string" where
  "UUID_String u =
     encodeHex (take 4 u) @ ''-'' @ encodeHex (take 2 (drop 4 u)) @ ''-'' @
     encodeHex (take 2 (drop 6 u)) @ ''-'' @ encodeHex (take 2 (drop 8 u)) @ ''-'' @
     encodeHex (take 6 (drop 10 u))"

text \<open>The zero value \<open>uuid.UUID{}\<close>.\<close>

definition UUID_zero :: UUID where
  "UUID_zero = replicate 16 0"

text \<open>\<open>uuid.New\<close>: sixteen bytes read from the random source, then the version (4) and
  variant (RFC 4122) bits are forced. The random source is a parameter: \<open>rander k\<close> is
  the \<open>k\<close>-th byte it delivers for this call.\<close>

definition uuid_New :: "(nat \<Rightarrow> 8 word) \<Rightarrow> UUID" where
  "uuid_New rander =
     (let uuid = map rander [0..<16];
          uuid = uuid[6 := (uuid ! 6 AND 0x0f) OR 0x40];
          uuid = uuid[8 := (uuid ! 8 AND 0x3f) OR 0x80]
      in uuid)"

section \<open>Invoice aggregate logic\<close>

definition Identification :: "Invoice \<Rightarrow> string" where
  "Identification i =
     (case Number i of
        Some n \<Rightarrow> if n \<noteq> 0 then Itoa n else UUID_String (UUID i)
      | None \<Rightarrow> UUID_String (UUID i))"

text \<open>The hook returns a nil error on every path; the model returns the invoice as the
  hook leaves it.\<close>

definition BeforeCreate :: "(nat \<Rightarrow> 8 word) \<Rightarrow> Invoice \<Rightarrow> Invoice" where
  "BeforeCreate rander invoice =
     (if UUID invoice = UUID_zero then invoice\<lparr>UUID := uuid_New rander\<rparr> else invoice)"

definition InvoiceLine_Total :: "InvoiceLine \<Rightarrow> real" where
  "InvoiceLine_Total il = Price (Product il) * real_of_int (Quantity il)"

text \<open>The loop of \<open>SubTotal\<close>, with the running sum as accumulator.\<close>

fun SubTotal_loop :: "real \<Rightarrow> InvoiceLine list \<Rightarrow> real" where
  "SubTotal_loop subTotal [] = subTotal"
| "SubTotal_loop subTotal (line # rest) = SubTotal_loop (subTotal + InvoiceLine_Total line) rest"

definition SubTotal :: "Invoice \<Rightarrow> real" where
  "SubTotal i = SubTotal_loop 0 (InvoiceLines i)"

definition Invoice_Total :: "Invoice \<Rightarrow> real" where
  "Invoice_Total i = SubTotal i - Discount i + Penalty i"

definition Repr :: "Invoice \<Rightarrow> string" where
  "Repr i =
     (let clientName = ReplaceAll (Company.Name (Client i)) CHR '' '' '''';
          issueDate = Format_20060102 (IssueDate i)
      in clientName @ ''_invoice_'' @ issueDate)"

section \<open>Zero values and a sample invoice\<close>

text \<open>The zero values of the Go structs; the zero \<open>time.Time\<close> is January 1 of year 1.\<close>

definition Time_zero :: Time where
  "Time_zero = \<lparr>year = 1, month = 1, day = 1, hour = 0, minute = 0, second = 0\<rparr>"

definition RemitInformation_zero :: RemitInformation where
  "RemitInformation_zero = \<lparr>RemitInformation.ID = 0, RemitInformation.Name = '''', Lines = []\<rparr>"

definition Product_zero :: Product where
  "Product_zero = \<lparr>Product.ID = 0, Product.Name = '''', Product.Description = None, Price = 0\<rparr>"

definition Company_zero :: Company where
  "Company_zero = \<lparr>Company.ID = 0, Company.Name = '''', Document = '''', Address = ''''\<rparr>"

definition InvoiceLine_zero :: InvoiceLine where
  "InvoiceLine_zero = \<lparr>InvoiceLine.ID = 0, InvoiceID = 0, ProductID = 0, Product = Product_zero,
     Quantity = 0, InvoiceLine.Description = None\<rparr>"

definition Invoice_zero :: Invoice where
  "Invoice_zero = \<lparr>Invoice.ID = 0, UUID = UUID_zero, Number = None, AdditionalInformation = None,
     Discount = 0, Penalty = 0, Paid = False, IssueDate = Time_zero, DueDate = Time_zero,
     Invoice.RemitInformationID = 0, RemitInformation = RemitInformation_zero,
     CompanyID = 0, Company = Company_zero, ClientID = 0, Client = Company_zero, InvoiceLines = []\<rparr>"

text \<open>An invoice with the values the repository's update test submits, already loaded with
  its client.\<close>

definition example_invoice :: Invoice where
  "example_invoice = Invoice_zero
     \<lparr>Invoice.ID := 1, Number := Some 4002, Discount := 25, Penalty := 10,
      IssueDate := \<lparr>year = 2025, month = 1, day = 31, hour = 23, minute = 59, second = 59\<rparr>,
      Client := \<lparr>Company.ID = 1, Company.Name = ''Test Company Ltd'', Document = ''12.345.678/0001-90'',
                 Address = ''123 Test Street, Test City''\<rparr>\<rparr>"

section \<open>Notions of the specification\<close>

text \<open>The number a string of decimal digits denotes, and the integer a signed decimal
  string denotes: what "the decimal string form" of a number has to read back as.\<close>

definition digit_val :: "char \<Rightarrow> nat" where
  "digit_val c = of_char c - 48"

definition dec_val :: "string \<Rightarrow> nat" where
  "dec_val s = foldl (\<lambda>a c. 10 * a + digit_val c) 0 s"

definition decimal_value :: "string \<Rightarrow> int" where
  "decimal_value s =
     (case s of [] \<Rightarrow> 0
      | c # cs \<Rightarrow> if c = CHR ''-'' then - int (dec_val cs) else int (dec_val s))"

text \<open>"Whitespace stripped", in the specification's words: every white space character
  removed (space, tab, line feed, vertical tab, form feed, carriage return).\<close>

definition strip_whitespace :: "string \<Rightarrow> string" where
  "strip_whitespace s =
     filter (\<lambda>c. c \<notin> {CHR '' '', CHR 0x09, CHR 0x0A, CHR 0x0B, CHR 0x0C, CHR 0x0D}) s"

text \<open>The 122 bits of an identifier that \<open>uuid.New\<close> takes from the random source: all
  but the version and variant bits.\<close>

definition uuid_random_bits :: "UUID \<Rightarrow> UUID" where
  "uuid_random_bits u = u[6 := u ! 6 AND 0x0f, 8 := u ! 8 AND 0x3f]"

section \<open>The store: the object-relational mapper over SQLite\<close>

text \<open>
  The repository reaches the database only through the mapper (\<open>Create\<close>, \<open>Save\<close>,
  \<open>Delete\<close>, \<open>Preload\<close>, \<open>First\<close>, \<open>Transaction\<close>). The tables are lists of rows in the
  order of their primary keys; a row is the struct with its association fields at their
  zero value, since those are not columns. Every table is \<open>AUTOINCREMENT\<close>: next to its
  rows the store keeps the largest key the table has ever held, and a new key lies above
  it, so that the key of a deleted row is never given out again.

  Two facts about the connection and the schema are fields of the store:
  \<^item> \<open>foreign_keys\<close>: SQLite checks foreign key constraints only on a connection where
    \<open>PRAGMA foreign_keys\<close> is on. \<open>setupTestServer\<close> switches it on;
    \<open>NewRepositoryWithDB\<close> and \<open>Migrate\<close> open the database file without it.
  \<^item> \<open>lines_rule\<close>: the \<open>ON DELETE\<close> rule of the foreign keys from the two line tables
    to their parent. The migration takes each of these two constraints from the parent's
    field (\<open>Invoice.InvoiceLines\<close>, \<open>RemitInformation.Lines\<close>), whose tag names no rule:
    the schema of the program has \<open>NO_ACTION\<close>. \<open>CASCADE\<close>, which the tags on
    \<open>InvoiceLine.Invoice\<close> and \<open>RemitInformationLine.RemitInformation\<close> ask for, is the
    other value the field can take.

  The other constraints are as the struct tags declare them: an invoice's references to its
  remit information, company and client are \<open>ON DELETE CASCADE\<close>, an invoice line's
  reference to its product is \<open>ON DELETE RESTRICT\<close>.

  A statement that violates an enforced constraint fails as a whole and changes nothing.
\<close>

datatype error = ErrRecordNotFound | ErrForeignKeyViolated | ErrDuplicatedKey | ErrStore

datatype referential_action = CASCADE | RESTRICT | NO_ACTION

record DB =
  foreign_keys :: bool
  lines_rule :: referential_action
  companies :: "Company list"
  products :: "Product list"
  remit_informations :: "RemitInformation list"
  remit_information_lines :: "RemitInformationLine list"
  invoices :: "Invoice list"
  invoice_lines :: "InvoiceLine list"
  seq_companies :: nat
  seq_products :: nat
  seq_remit_informations :: nat
  seq_remit_information_lines :: nat
  seq_invoices :: nat
  seq_invoice_lines :: nat

text \<open>
  What the environment decides during one call of the repository: the bytes the random
  source delivers, the time of the database clock, and which of the call's database
  operations (counted from 0) fail in the store itself (an I/O error, a locked database):
  the source's \<open>if err != nil\<close> branches.
\<close>

record env =
  rander :: "nat \<Rightarrow> 8 word"
  now :: Time
  faults :: "nat \<Rightarrow> bool"

definition exec :: "bool \<Rightarrow> (DB \<Rightarrow> error + 'a) \<Rightarrow> DB \<Rightarrow> error + 'a" where
  "exec fails stmt db = (if fails then Inl ErrStore else stmt db)"

text \<open>The key of a row inserted without one: above the largest key the table has ever
  held (\<open>seq\<close>) and above every key in it.\<close>

definition next_id :: "nat \<Rightarrow> nat list \<Rightarrow> nat" where
  "next_id seq ids = Suc (max seq (fold max ids 0))"

subsection \<open>DELETE statements\<close>

text \<open>\<open>DELETE FROM invoice_lines WHERE invoice_id = ?\<close> and
  \<open>DELETE FROM remit_information_lines WHERE remit_information_id = ?\<close>: no table refers
  to a line.\<close>

definition delete_invoice_lines :: "nat \<Rightarrow> DB \<Rightarrow> error + DB" where
  "delete_invoice_lines invoice_id db =
     Inr (db\<lparr>invoice_lines := filter (\<lambda>l. InvoiceID l \<noteq> invoice_id) (invoice_lines db)\<rparr>)"

definition delete_remit_information_lines :: "nat \<Rightarrow> DB \<Rightarrow> error + DB" where
  "delete_remit_information_lines remit_id db =
     Inr (db\<lparr>remit_information_lines :=
            filter (\<lambda>l. RemitInformationLine.RemitInformationID l \<noteq> remit_id)
              (remit_information_lines db)\<rparr>)"

text \<open>Deleting the invoices that satisfy \<open>P\<close>, directly or by a cascade: with foreign keys
  enforced their lines are deleted too (\<open>CASCADE\<close>) or make the statement fail.\<close>

definition delete_invoices :: "(Invoice \<Rightarrow> bool) \<Rightarrow> DB \<Rightarrow> error + DB" where
  "delete_invoices P db =
     (let ids = map Invoice.ID (filter P (invoices db));
          db' = db\<lparr>invoices := filter (\<lambda>i. \<not> P i) (invoices db)\<rparr>
      in if \<not> foreign_keys db then Inr db'
         else if lines_rule db = CASCADE
         then Inr (db'\<lparr>invoice_lines := filter (\<lambda>l. InvoiceID l \<notin> set ids) (invoice_lines db)\<rparr>)
         else if \<exists>l \<in> set (invoice_lines db). InvoiceID l \<in> set ids then Inl ErrForeignKeyViolated
         else Inr db')"

text \<open>\<open>DELETE FROM companies WHERE id = ?\<close>. \<open>Company\<close> has no association field, so
  \<open>Select(clause.Associations)\<close> selects nothing.\<close>

definition delete_company :: "nat \<Rightarrow> DB \<Rightarrow> error + DB" where
  "delete_company id' db =
     (let db' = db\<lparr>companies := filter (\<lambda>c. Company.ID c \<noteq> id') (companies db)\<rparr>
      in if foreign_keys db \<and> (\<exists>c \<in> set (companies db). Company.ID c = id')
         then delete_invoices (\<lambda>i. CompanyID i = id' \<or> ClientID i = id') db'
         else Inr db')"

text \<open>\<open>DELETE FROM products WHERE id = ?\<close>; \<open>Product\<close> has no association field either.\<close>

definition delete_product :: "nat \<Rightarrow> DB \<Rightarrow> error + DB" where
  "delete_product id' db =
     (if foreign_keys db \<and> (\<exists>p \<in> set (products db). Product.ID p = id')
         \<and> (\<exists>l \<in> set (invoice_lines db). ProductID l = id')
      then Inl ErrForeignKeyViolated
      else Inr (db\<lparr>products := filter (\<lambda>p. Product.ID p \<noteq> id') (products db)\<rparr>))"

text \<open>\<open>DELETE FROM remit_informations WHERE id = ?\<close>.\<close>

definition delete_remit_information :: "nat \<Rightarrow> DB \<Rightarrow> error + DB" where
  "delete_remit_information id' db =
     (let db' = db\<lparr>remit_informations :=
                    filter (\<lambda>r. RemitInformation.ID r \<noteq> id') (remit_informations db)\<rparr>
      in if foreign_keys db \<and> (\<exists>r \<in> set (remit_informations db). RemitInformation.ID r = id')
         then if lines_rule db = CASCADE
              then delete_invoices (\<lambda>i. Invoice.RemitInformationID i = id')
                     (db'\<lparr>remit_information_lines :=
                        filter (\<lambda>l. RemitInformationLine.RemitInformationID l \<noteq> id')
                          (remit_information_lines db)\<rparr>)
              else if \<exists>l \<in> set (remit_information_lines db).
                         RemitInformationLine.RemitInformationID l = id'
              then Inl ErrForeignKeyViolated
              else delete_invoices (\<lambda>i. Invoice.RemitInformationID i = id') db'
         else Inr db')"

subsection \<open>Saving the rows an invoice belongs to\<close>

text \<open>
  The mapper saves the association values nested in the struct it is given. A struct the
  invoice (or a line) belongs to, unless it is the zero value, is inserted with
  \<open>ON CONFLICT DO NOTHING\<close>: under a new key if it has none, under its own key if no row has
  it, and not at all if a row has it. Then the foreign key of the owner is overwritten with
  the key of that struct. A remit information is saved with its lines, in the way the
  lines of an invoice are saved (below). A nil and an empty slice are both the empty list
  here.
\<close>

definition save_company :: "Company \<Rightarrow> DB \<Rightarrow> Company \<times> DB" where
  "save_company c db =
     (if Company.ID c \<noteq> 0 \<and> (\<exists>r \<in> set (companies db). Company.ID r = Company.ID c) then (c, db)
      else let c' = c\<lparr>Company.ID :=
                       (if Company.ID c = 0
                        then next_id (seq_companies db) (map Company.ID (companies db))
                        else Company.ID c)\<rparr>
           in (c', db\<lparr>companies := insort_key Company.ID c' (companies db),
                      seq_companies := max (seq_companies db) (Company.ID c')\<rparr>))"

definition save_product :: "Product \<Rightarrow> DB \<Rightarrow> Product \<times> DB" where
  "save_product p db =
     (if Product.ID p \<noteq> 0 \<and> (\<exists>r \<in> set (products db). Product.ID r = Product.ID p) then (p, db)
      else let p' = p\<lparr>Product.ID :=
                       (if Product.ID p = 0
                        then next_id (seq_products db) (map Product.ID (products db))
                        else Product.ID p)\<rparr>
           in (p', db\<lparr>products := insort_key Product.ID p' (products db),
                      seq_products := max (seq_products db) (Product.ID p')\<rparr>))"

definition insert_remit_information_line ::
    "RemitInformationLine \<Rightarrow> DB \<Rightarrow> error + RemitInformationLine \<times> DB" where
  "insert_remit_information_line l db =
     (if foreign_keys db \<and> \<not> (\<exists>r \<in> set (remit_informations db).
            RemitInformation.ID r = RemitInformationLine.RemitInformationID l)
      then Inl ErrForeignKeyViolated
      else if RemitInformationLine.ID l \<noteq> 0
              \<and> (\<exists>r \<in> set (remit_information_lines db).
                    RemitInformationLine.ID r = RemitInformationLine.ID l)
      then Inr (l, db\<lparr>remit_information_lines :=
                  map (\<lambda>r. if RemitInformationLine.ID r = RemitInformationLine.ID l
                           then r\<lparr>RemitInformationLine.RemitInformationID :=
                                    RemitInformationLine.RemitInformationID l\<rparr>
                           else r)
                    (remit_information_lines db)\<rparr>)
      else let l' = l\<lparr>RemitInformationLine.ID :=
                       (if RemitInformationLine.ID l = 0
                        then next_id (seq_remit_information_lines db)
                               (map RemitInformationLine.ID (remit_information_lines db))
                        else RemitInformationLine.ID l)\<rparr>
           in Inr (l', db\<lparr>remit_information_lines :=
                            insort_key RemitInformationLine.ID l' (remit_information_lines db),
                          seq_remit_information_lines :=
                            max (seq_remit_information_lines db) (RemitInformationLine.ID l')\<rparr>))"

fun save_remit_information_lines ::
    "nat list \<Rightarrow> RemitInformationLine list \<Rightarrow> DB \<Rightarrow> error + RemitInformationLine list \<times> DB" where
  "save_remit_information_lines seen [] db = Inr ([], db)"
| "save_remit_information_lines seen (l # ls) db =
     (if RemitInformationLine.ID l \<noteq> 0 \<and> RemitInformationLine.ID l \<in> set seen
      then (case save_remit_information_lines seen ls db of
              Inl err \<Rightarrow> Inl err
            | Inr (ls', db') \<Rightarrow> Inr (l # ls', db'))
      else (case insert_remit_information_line l db of
              Inl err \<Rightarrow> Inl err
            | Inr (l', db1) \<Rightarrow>
                (case save_remit_information_lines (RemitInformationLine.ID l # seen) ls db1 of
                   Inl err \<Rightarrow> Inl err
                 | Inr (ls', db') \<Rightarrow> Inr (l' # ls', db'))))"

definition save_remit_information ::
    "RemitInformation \<Rightarrow> DB \<Rightarrow> error + RemitInformation \<times> DB" where
  "save_remit_information r db =
     (let (r', db1) =
            (if RemitInformation.ID r \<noteq> 0
                \<and> (\<exists>x \<in> set (remit_informations db). RemitInformation.ID x = RemitInformation.ID r)
             then (r, db)
             else let r' = r\<lparr>RemitInformation.ID :=
                              (if RemitInformation.ID r = 0
                               then next_id (seq_remit_informations db)
                                      (map RemitInformation.ID (remit_informations db))
                               else RemitInformation.ID r)\<rparr>
                  in (r', db\<lparr>remit_informations :=
                               insort_key RemitInformation.ID (r'\<lparr>Lines := []\<rparr>) (remit_informations db),
                             seq_remit_informations :=
                               max (seq_remit_informations db) (RemitInformation.ID r')\<rparr>))
      in case save_remit_information_lines []
                (map (\<lambda>l. l\<lparr>RemitInformationLine.RemitInformationID := RemitInformation.ID r'\<rparr>)
                   (Lines r')) db1 of
           Inl err \<Rightarrow> Inl err
         | Inr (ls, db2) \<Rightarrow> Inr (r'\<lparr>Lines := ls\<rparr>, db2))"

text \<open>The three structs an invoice belongs to, in the order of its fields.\<close>

definition SaveBeforeAssociations :: "Invoice \<Rightarrow> DB \<Rightarrow> error + Invoice \<times> DB" where
  "SaveBeforeAssociations invoice db =
     (case (if RemitInformation invoice = RemitInformation_zero then Inr (invoice, db)
            else case save_remit_information (RemitInformation invoice) db of
                   Inl err \<Rightarrow> Inl err
                 | Inr (r, db1) \<Rightarrow>
                     Inr (invoice\<lparr>RemitInformation := r,
                                  Invoice.RemitInformationID := RemitInformation.ID r\<rparr>, db1)) of
        Inl err \<Rightarrow> Inl err
      | Inr (invoice1, db1) \<Rightarrow>
          let (invoice2, db2) =
                (if Company invoice1 = Company_zero then (invoice1, db1)
                 else let (c, d) = save_company (Company invoice1) db1
                      in (invoice1\<lparr>Company := c, CompanyID := Company.ID c\<rparr>, d));
              (invoice3, db3) =
                (if Client invoice2 = Company_zero then (invoice2, db2)
                 else let (c, d) = save_company (Client invoice2) db2
                      in (invoice2\<lparr>Client := c, ClientID := Company.ID c\<rparr>, d))
          in Inr (invoice3, db3))"

text \<open>The product nested in an invoice line.\<close>

definition save_line_product :: "InvoiceLine \<Rightarrow> DB \<Rightarrow> InvoiceLine \<times> DB" where
  "save_line_product l db =
     (if Product l = Product_zero then (l, db)
      else let (p, db') = save_product (Product l) db
           in (l\<lparr>Product := p, ProductID := Product.ID p\<rparr>, db'))"

subsection \<open>Saving an invoice with its lines\<close>

text \<open>
  The mapper saves the lines of an invoice after the invoice: each line gets the invoice's
  key as \<open>InvoiceID\<close>; a line whose non-zero key was already seen in the same slice is
  skipped; of the others the nested product is saved first, then a line without a primary
  key is inserted under a new key, a line whose key no row has is inserted under that key,
  and a line whose key is already in the table only has that row's \<open>invoice_id\<close> updated
  (\<open>ON CONFLICT (id) DO UPDATE\<close>), whichever invoice the row belonged to. A zero
  \<open>Quantity\<close> is stored as its declared default 1, a nil \<open>Number\<close> and a zero \<open>IssueDate\<close>
  of a new invoice as their defaults 0 and the current time.
\<close>

definition invoice_exists :: "nat \<Rightarrow> DB \<Rightarrow> bool" where
  "invoice_exists id' db = (\<exists>i \<in> set (invoices db). Invoice.ID i = id')"

definition references_ok :: "Invoice \<Rightarrow> DB \<Rightarrow> bool" where
  "references_ok i db =
     (\<not> foreign_keys db \<or>
      ((\<exists>r \<in> set (remit_informations db). RemitInformation.ID r = Invoice.RemitInformationID i)
       \<and> (\<exists>c \<in> set (companies db). Company.ID c = CompanyID i)
       \<and> (\<exists>c \<in> set (companies db). Company.ID c = ClientID i)))"

definition line_references_ok :: "InvoiceLine \<Rightarrow> DB \<Rightarrow> bool" where
  "line_references_ok l db =
     (\<not> foreign_keys db \<or>
      (invoice_exists (InvoiceID l) db \<and> (\<exists>p \<in> set (products db). Product.ID p = ProductID l)))"

definition invoice_columns :: "Invoice \<Rightarrow> Invoice" where
  "invoice_columns i =
     i\<lparr>RemitInformation := RemitInformation_zero, Company := Company_zero, Client := Company_zero,
       InvoiceLines := []\<rparr>"

definition invoice_line_columns :: "InvoiceLine \<Rightarrow> InvoiceLine" where
  "invoice_line_columns l = l\<lparr>Product := Product_zero\<rparr>"

definition insert_invoice_line :: "InvoiceLine \<Rightarrow> DB \<Rightarrow> error + InvoiceLine \<times> DB" where
  "insert_invoice_line l db =
     (if InvoiceLine.ID l \<noteq> 0 \<and> (\<exists>r \<in> set (invoice_lines db). InvoiceLine.ID r = InvoiceLine.ID l)
      then if foreign_keys db \<and> \<not> invoice_exists (InvoiceID l) db then Inl ErrForeignKeyViolated
           else Inr (l, db\<lparr>invoice_lines :=
                   map (\<lambda>r. if InvoiceLine.ID r = InvoiceLine.ID l then r\<lparr>InvoiceID := InvoiceID l\<rparr> else r)
                     (invoice_lines db)\<rparr>)
      else if \<not> line_references_ok l db then Inl ErrForeignKeyViolated
      else let l' = l\<lparr>InvoiceLine.ID :=
                       (if InvoiceLine.ID l = 0
                        then next_id (seq_invoice_lines db) (map InvoiceLine.ID (invoice_lines db))
                        else InvoiceLine.ID l),
                     Quantity := (if Quantity l = 0 then 1 else Quantity l)\<rparr>
           in Inr (l', db\<lparr>invoice_lines :=
                            insort_key InvoiceLine.ID (invoice_line_columns l') (invoice_lines db),
                          seq_invoice_lines := max (seq_invoice_lines db) (InvoiceLine.ID l')\<rparr>))"

fun save_invoice_lines :: "nat list \<Rightarrow> InvoiceLine list \<Rightarrow> DB \<Rightarrow> error + InvoiceLine list \<times> DB" where
  "save_invoice_lines seen [] db = Inr ([], db)"
| "save_invoice_lines seen (l # ls) db =
     (if InvoiceLine.ID l \<noteq> 0 \<and> InvoiceLine.ID l \<in> set seen
      then (case save_invoice_lines seen ls db of
              Inl err \<Rightarrow> Inl err
            | Inr (ls', db') \<Rightarrow> Inr (l # ls', db'))
      else (case insert_invoice_line (fst (save_line_product l db)) (snd (save_line_product l db)) of
              Inl err \<Rightarrow> Inl err
            | Inr (l', db1) \<Rightarrow>
                (case save_invoice_lines (InvoiceLine.ID l # seen) ls db1 of
                   Inl err \<Rightarrow> Inl err
                 | Inr (ls', db') \<Rightarrow> Inr (l' # ls', db'))))"

definition SaveAfterAssociations :: "Invoice \<Rightarrow> DB \<Rightarrow> error + Invoice \<times> DB" where
  "SaveAfterAssociations invoice db =
     (case save_invoice_lines []
             (map (\<lambda>l. l\<lparr>InvoiceID := Invoice.ID invoice\<rparr>) (InvoiceLines invoice)) db of
        Inl err \<Rightarrow> Inl err
      | Inr (ls, db') \<Rightarrow> Inr (invoice\<lparr>InvoiceLines := ls\<rparr>, db'))"

definition insert_invoice :: "Time \<Rightarrow> Invoice \<Rightarrow> DB \<Rightarrow> error + Invoice \<times> DB" where
  "insert_invoice nw invoice db =
     (if Invoice.ID invoice \<noteq> 0 \<and> invoice_exists (Invoice.ID invoice) db then Inl ErrDuplicatedKey
      else if \<not> references_ok invoice db then Inl ErrForeignKeyViolated
      else let invoice' = invoice
                 \<lparr>Invoice.ID := (if Invoice.ID invoice = 0
                                 then next_id (seq_invoices db) (map Invoice.ID (invoices db))
                                 else Invoice.ID invoice),
                  Number := (case Number invoice of None \<Rightarrow> Some 0 | Some n \<Rightarrow> Some n),
                  IssueDate := (if IssueDate invoice = Time_zero then nw else IssueDate invoice)\<rparr>
           in Inr (invoice', db\<lparr>invoices := insort_key Invoice.ID (invoice_columns invoice') (invoices db),
                                seq_invoices := max (seq_invoices db) (Invoice.ID invoice')\<rparr>))"

text \<open>\<open>UPDATE invoices SET ... WHERE id = ?\<close> with every column of the argument.\<close>

definition update_invoice :: "Invoice \<Rightarrow> DB \<Rightarrow> error + DB" where
  "update_invoice invoice db =
     (if \<not> invoice_exists (Invoice.ID invoice) db then Inr db
      else if \<not> references_ok invoice db then Inl ErrForeignKeyViolated
      else Inr (db\<lparr>invoices :=
                  map (\<lambda>r. if Invoice.ID r = Invoice.ID invoice then invoice_columns invoice else r)
                    (invoices db)\<rparr>))"

text \<open>The mapper's \<open>Create\<close> after the \<open>BeforeCreate\<close> hook, and its \<open>Save\<close>: an invoice
  without a primary key is created (hook included); otherwise the structs it belongs to
  are saved, its row is updated and its lines are saved, and when no row had that key the
  invoice is inserted under it, without the hook.\<close>

definition Create :: "Time \<Rightarrow> Invoice \<Rightarrow> DB \<Rightarrow> error + Invoice \<times> DB" where
  "Create nw invoice db =
     (case SaveBeforeAssociations invoice db of
        Inl err \<Rightarrow> Inl err
      | Inr (invoice1, db1) \<Rightarrow>
          (case insert_invoice nw invoice1 db1 of
             Inl err \<Rightarrow> Inl err
           | Inr (invoice2, db2) \<Rightarrow> SaveAfterAssociations invoice2 db2))"

definition Save :: "env \<Rightarrow> Invoice \<Rightarrow> DB \<Rightarrow> error + Invoice \<times> DB" where
  "Save e invoice db =
     (if Invoice.ID invoice = 0 then Create (now e) (BeforeCreate (rander e) invoice) db
      else (case SaveBeforeAssociations invoice db of
              Inl err \<Rightarrow> Inl err
            | Inr (invoice1, db1) \<Rightarrow>
                (case update_invoice invoice1 db1 of
                   Inl err \<Rightarrow> Inl err
                 | Inr db2 \<Rightarrow>
                     (case SaveAfterAssociations invoice1 db2 of
                        Inl err \<Rightarrow> Inl err
                      | Inr (invoice2, db3) \<Rightarrow>
                          if invoice_exists (Invoice.ID invoice) db then Inr (invoice2, db3)
                          else Create (now e) invoice2 db3))))"

subsection \<open>Preloading\<close>

definition Preload_Product :: "DB \<Rightarrow> InvoiceLine \<Rightarrow> InvoiceLine" where
  "Preload_Product db l =
     l\<lparr>Product := (case find (\<lambda>p. Product.ID p = ProductID l) (products db) of
                     Some p \<Rightarrow> p | None \<Rightarrow> Product_zero)\<rparr>"

definition Preload_Company :: "DB \<Rightarrow> nat \<Rightarrow> Company" where
  "Preload_Company db id' =
     (case find (\<lambda>c. Company.ID c = id') (companies db) of Some c \<Rightarrow> c | None \<Rightarrow> Company_zero)"

definition Preload_RemitInformation :: "DB \<Rightarrow> nat \<Rightarrow> RemitInformation" where
  "Preload_RemitInformation db id' =
     (case find (\<lambda>r. RemitInformation.ID r = id') (remit_informations db) of
        Some r \<Rightarrow> r\<lparr>Lines := filter (\<lambda>l. RemitInformationLine.RemitInformationID l = id')
                              (remit_information_lines db)\<rparr>
      | None \<Rightarrow> RemitInformation_zero)"

section \<open>Repository operations (repository.go)\<close>

text \<open>
  Each operation returns the error of the Go function (\<open>None\<close> for nil) and the store it
  leaves behind. A single mapper call runs in a transaction of its own, so it either takes
  effect or leaves the store as it was; \<open>Transaction\<close> in \<open>UpdateInvoice\<close> does the same
  for the two calls in its body. \<open>DeleteRemitInformation\<close> and \<open>DeleteInvoice\<close> make two
  mapper calls in a row, outside any transaction.
\<close>

definition DeleteCompany :: "env \<Rightarrow> nat \<Rightarrow> DB \<Rightarrow> error option \<times> DB" where
  "DeleteCompany e id' db =
     (case exec (faults e 0) (delete_company id') db of
        Inl err \<Rightarrow> (Some err, db)
      | Inr db' \<Rightarrow> (None, db'))"

definition DeleteProduct :: "env \<Rightarrow> nat \<Rightarrow> DB \<Rightarrow> error option \<times> DB" where
  "DeleteProduct e id' db =
     (case exec (faults e 0) (delete_product id') db of
        Inl err \<Rightarrow> (Some err, db)
      | Inr db' \<Rightarrow> (None, db'))"

definition DeleteRemitInformation :: "env \<Rightarrow> nat \<Rightarrow> DB \<Rightarrow> error option \<times> DB" where
  "DeleteRemitInformation e id' db =
     (case exec (faults e 0) (delete_remit_information_lines id') db of
        Inl err \<Rightarrow> (Some err, db)
      | Inr db1 \<Rightarrow>
          (case exec (faults e 1) (delete_remit_information id') db1 of
             Inl err \<Rightarrow> (Some err, db1)
           | Inr db2 \<Rightarrow> (None, db2)))"

definition DeleteInvoice :: "env \<Rightarrow> nat \<Rightarrow> DB \<Rightarrow> error option \<times> DB" where
  "DeleteInvoice e id' db =
     (case exec (faults e 0) (delete_invoice_lines id') db of
        Inl err \<Rightarrow> (Some err, db)
      | Inr db1 \<Rightarrow>
          (case exec (faults e 1) (delete_invoices (\<lambda>i. Invoice.ID i = id')) db1 of
             Inl err \<Rightarrow> (Some err, db1)
           | Inr db2 \<Rightarrow> (None, db2)))"

text \<open>\<open>CreateInvoice\<close> also returns the struct as the call leaves it: identifier, key and
  defaults filled in.\<close>

definition CreateInvoice :: "env \<Rightarrow> Invoice \<Rightarrow> DB \<Rightarrow> error option \<times> Invoice \<times> DB" where
  "CreateInvoice e invoice db =
     (let invoice0 = BeforeCreate (rander e) invoice
      in case exec (faults e 0) (Create (now e) invoice0) db of
           Inl err \<Rightarrow> (Some err, invoice0, db)
         | Inr (invoice', db') \<Rightarrow> (None, invoice', db'))"

definition UpdateInvoice :: "env \<Rightarrow> Invoice \<Rightarrow> DB \<Rightarrow> error option \<times> DB" where
  "UpdateInvoice e invoice db =
     (case exec (faults e 0) (delete_invoice_lines (Invoice.ID invoice)) db of
        Inl err \<Rightarrow> (Some err, db)
      | Inr db1 \<Rightarrow>
          (case exec (faults e 1) (Save e invoice) db1 of
             Inl err \<Rightarrow> (Some err, db)
           | Inr (invoice', db2) \<Rightarrow> (None, db2)))"

definition GetInvoice :: "env \<Rightarrow> nat \<Rightarrow> DB \<Rightarrow> error + Invoice" where
  "GetInvoice e id' db =
     (if faults e 0 then Inl ErrStore
      else case find (\<lambda>i. Invoice.ID i = id') (invoices db) of
             None \<Rightarrow> Inl ErrRecordNotFound
           | Some row \<Rightarrow>
               Inr (row\<lparr>InvoiceLines :=
                          map (Preload_Product db) (filter (\<lambda>l. InvoiceID l = id') (invoice_lines db)),
                        RemitInformation := Preload_RemitInformation db (Invoice.RemitInformationID row),
                        Company := Preload_Company db (CompanyID row),
                        Client := Preload_Company db (ClientID row)\<rparr>))"

section \<open>Sample data\<close>

text \<open>The rows that \<open>createTestData\<close> and the invoice tests set up: one company, one
  product, one remit information with two lines, one invoice with one line; and the
  request of the update test.\<close>

definition no_faults :: env where
  "no_faults = \<lparr>rander = (\<lambda>k. of_nat (17 * k)),
                now = \<lparr>year = 2025, month = 6, day = 15, hour = 12, minute = 0, second = 0\<rparr>,
                faults = (\<lambda>k. False)\<rparr>"

definition example_db :: "bool \<Rightarrow> referential_action \<Rightarrow> DB" where
  "example_db fk rule =
     \<lparr>foreign_keys = fk, lines_rule = rule,
      companies = [\<lparr>Company.ID = 1, Company.Name = ''Test Company Ltd'',
                     Document = ''12.345.678/0001-90'', Address = ''123 Test Street, Test City''\<rparr>],
      products = [\<lparr>Product.ID = 1, Product.Name = ''Test Product'',
                    Product.Description = Some ''Test product description'', Price = 9999 / 100\<rparr>],
      remit_informations =
        [\<lparr>RemitInformation.ID = 1, RemitInformation.Name = ''Test Remit Info'', Lines = []\<rparr>],
      remit_information_lines =
        [\<lparr>RemitInformationLine.ID = 1, Key = ''bank'', Value_ = ''Test Bank'',
           RemitInformationLine.RemitInformationID = 1\<rparr>,
         \<lparr>RemitInformationLine.ID = 2, Key = ''account'', Value_ = ''123456789'',
           RemitInformationLine.RemitInformationID = 1\<rparr>],
      invoices =
        [Invoice_zero\<lparr>Invoice.ID := 1, Number := Some 4001, IssueDate := now no_faults,
           DueDate := now no_faults, Invoice.RemitInformationID := 1, CompanyID := 1, ClientID := 1\<rparr>],
      invoice_lines =
        [InvoiceLine_zero\<lparr>InvoiceLine.ID := 1, InvoiceID := 1, ProductID := 1, Quantity := 1\<rparr>],
      seq_companies = 1, seq_products = 1, seq_remit_informations = 1,
      seq_remit_information_lines = 2, seq_invoices = 1, seq_invoice_lines = 1\<rparr>"

text \<open>A second environment, whose random source delivers other bytes.\<close>

definition second_env :: env where
  "second_env = no_faults\<lparr>rander := (\<lambda>k. of_nat (3 * k + 1))\<rparr>"

definition update_request :: Invoice where
  "update_request = Invoice_zero
     \<lparr>Invoice.ID := 1, Number := Some 4002, AdditionalInformation := Some ''Updated invoice info'',
      Discount := 25, Penalty := 10,
      DueDate := \<lparr>year = 2025, month = 1, day = 31, hour = 23, minute = 59, second = 59\<rparr>,
      Invoice.RemitInformationID := 1, CompanyID := 1, ClientID := 1,
      InvoiceLines := [InvoiceLine_zero\<lparr>ProductID := 1, Quantity := 5,
                         InvoiceLine.Description := Some ''Updated line''\<rparr>]\<rparr>"

text \<open>The same values as a request to create an invoice: no key, no identifier.\<close>

definition new_invoice :: Invoice where
  "new_invoice = update_request\<lparr>Invoice.ID := 0\<rparr>"

text \<open>The sample store after one such invoice was created.\<close>

definition after_first_create :: DB where
  "after_first_create = snd (snd (CreateInvoice no_faults new_invoice (example_db True NO_ACTION)))"

text \<open>What a line says, apart from the keys the store assigns: product, quantity and
  description.\<close>

definition line_data :: "InvoiceLine \<Rightarrow> nat \<times> int \<times> string option" where
  "line_data l = (ProductID l, Quantity l, InvoiceLine.Description l)"

text \<open>Reading the lines of an invoice: \<open>GetInvoice\<close>, and of each line it returns what the
  line says.\<close>

definition read_lines :: "env \<Rightarrow> nat \<Rightarrow> DB \<Rightarrow> error + (nat \<times> int \<times> string option) list" where
  "read_lines e id' db =
     (case GetInvoice e id' db of
        Inl err \<Rightarrow> Inl err
      | Inr invoice \<Rightarrow> Inr (map line_data (InvoiceLines invoice)))"

text \<open>The sample store, on a connection that enforces foreign keys, after a second
  invoice with one line of quantity 7 was created.\<close>

definition second_invoice :: Invoice where
  "second_invoice = new_invoice
     \<lparr>Number := Some 4003,
      InvoiceLines := [InvoiceLine_zero\<lparr>ProductID := 1, Quantity := 7\<rparr>]\<rparr>"

definition two_invoices_db :: DB where
  "two_invoices_db = snd (snd (CreateInvoice no_faults second_invoice (example_db True NO_ACTION)))"

text \<open>Three variants of the update request: its line with quantity 0; its line carrying
  the key 2, which is the key of the line of invoice 2; and two lines, the first carrying
  the key 1 of the line that invoice 1 has in the store.\<close>

definition zero_quantity_request :: Invoice where
  "zero_quantity_request = update_request
     \<lparr>InvoiceLines := [InvoiceLine_zero\<lparr>ProductID := 1, Quantity := 0,
                         InvoiceLine.Description := Some ''Updated line''\<rparr>]\<rparr>"

definition foreign_line_request :: Invoice where
  "foreign_line_request = update_request
     \<lparr>InvoiceLines := [InvoiceLine_zero\<lparr>InvoiceLine.ID := 2, ProductID := 1, Quantity := 5,
                         InvoiceLine.Description := Some ''Updated line''\<rparr>]\<rparr>"

definition own_line_request :: Invoice where
  "own_line_request = update_request
     \<lparr>InvoiceLines := [InvoiceLine_zero\<lparr>InvoiceLine.ID := 1, ProductID := 1, Quantity := 5,
                         InvoiceLine.Description := Some ''Updated line''\<rparr>,
                       InvoiceLine_zero\<lparr>ProductID := 1, Quantity := 2\<rparr>]\<rparr>"

section \<open>Decimal strings\<close>

lemma digit_char: "d < 10 \<Longrightarrow> digit_val (''0123456789'' ! d) = d"
  by (auto simp: less_Suc_eq numeral_eq_Suc digit_val_def)

lemma digit_char_set: "d < 10 \<Longrightarrow> ''0123456789'' ! d \<in> set ''0123456789''"
  by (auto simp: less_Suc_eq numeral_eq_Suc)

lemma dec_val_snoc: "dec_val (s @ [c]) = 10 * dec_val s + digit_val c"
  by (simp add: dec_val_def)

lemma dec_val_digits: "dec_val (digits n) = n"
proof (induction n rule: digits.induct)
  case (1 n)
  show ?case
  proof (cases "n < 10")
    case True
    then show ?thesis by (subst digits.simps) (simp add: dec_val_def digit_char)
  next
    case False
    with 1 have "dec_val (digits (n div 10)) = n div 10" by simp
    with False show ?thesis
      by (subst digits.simps) (simp add: dec_val_snoc digit_char)
  qed
qed

lemma digits_set: "set (digits n) \<subseteq> set ''0123456789''"
proof (induction n rule: digits.induct)
  case (1 n)
  show ?case
  proof (cases "n < 10")
    case True
    then show ?thesis using digit_char_set [of n] by (subst digits.simps) simp
  next
    case False
    with 1 have "set (digits (n div 10)) \<subseteq> set ''0123456789''" by simp
    with False show ?thesis using digit_char_set [of "n mod 10"]
      by (subst digits.simps) simp
  qed
qed

lemma digits_not_Nil: "digits n \<noteq> []"
  by (subst digits.simps) simp

lemma digits_length: "0 < k \<Longrightarrow> n < 10 ^ k \<Longrightarrow> length (digits n) \<le> k"
proof (induction n arbitrary: k rule: digits.induct)
  case (1 n)
  show ?case
  proof (cases "n < 10")
    case True
    then show ?thesis using 1(2) by (subst digits.simps) simp
  next
    case False
    then obtain j where k: "k = Suc j" using 1(2) by (cases k) auto
    from False 1(3) k have j: "0 < j" by (cases j) auto
    from 1(3) k have "n div 10 < 10 ^ j" by (simp add: less_mult_imp_div_less mult.commute)
    with 1(1) [OF False j] have "length (digits (n div 10)) \<le> j" by simp
    with False k show ?thesis by (subst digits.simps) simp
  qed
qed

lemma decimal_value_Itoa: "decimal_value (Itoa n) = n"
proof (cases "n < 0")
  case True
  then show ?thesis by (simp add: decimal_value_def Itoa_def dec_val_digits)
next
  case False
  obtain c cs where d: "digits (nat n) = c # cs"
    using digits_not_Nil [of "nat n"] by (cases "digits (nat n)") auto
  have "c \<in> set ''0123456789''" using digits_set [of "nat n"] d by auto
  then have "c \<noteq> CHR ''-''" by auto
  with False d dec_val_digits [of "nat n"] show ?thesis
    by (simp add: decimal_value_def Itoa_def)
qed

lemma dec_val_zeros: "dec_val (replicate m CHR ''0'' @ s) = dec_val s"
  by (induction m) (simp_all add: dec_val_def digit_val_def)

lemma appendInt_nonneg:
  assumes "0 < k" "n < 10 ^ k"
  shows "length (appendInt (int n) k) = k" "set (appendInt (int n) k) \<subseteq> set ''0123456789''"
        "dec_val (appendInt (int n) k) = n"
proof -
  have l: "length (digits n) \<le> k" using assms by (rule digits_length)
  then show "length (appendInt (int n) k) = k" by (simp add: appendInt_def Let_def)
  show "set (appendInt (int n) k) \<subseteq> set ''0123456789''"
    using digits_set [of n] by (auto simp: appendInt_def Let_def)
  show "dec_val (appendInt (int n) k) = n"
    by (simp add: appendInt_def Let_def dec_val_zeros dec_val_digits)
qed

lemma Format_20060102_shape:
  assumes "0 \<le> year t" "year t \<le> 9999" "month t \<le> 12" "day t \<le> 31"
  shows "length (Format_20060102 t) = 8 \<and> set (Format_20060102 t) \<subseteq> set ''0123456789''
         \<and> int (dec_val (take 4 (Format_20060102 t))) = year t
         \<and> dec_val (take 2 (drop 4 (Format_20060102 t))) = month t
         \<and> dec_val (drop 6 (Format_20060102 t)) = day t"
proof -
  obtain y where y: "year t = int y" "y < 10 ^ 4" using assms(1,2) by (cases "year t") auto
  have m: "month t < 10 ^ 2" and d: "day t < 10 ^ 2" using assms(3,4) by simp_all
  note Y = appendInt_nonneg [OF _ y(2)] and M = appendInt_nonneg [OF _ m]
    and D = appendInt_nonneg [OF _ d]
  show ?thesis
    using Y M D by (simp add: Format_20060102_def y(1))
qed

lemma ReplaceAll_filter: "ReplaceAll s c '''' = filter (\<lambda>x. x \<noteq> c) s"
  by (induction s) simp_all

section \<open>Totals\<close>

text \<open>
  C10. An invoice without lines has subtotal 0 and total penalty minus discount, which is
  negative as soon as the discount exceeds the penalty: nothing clamps the total at zero.
\<close>

theorem Total_no_lines:
  "InvoiceLines i = [] \<Longrightarrow>
     SubTotal i = 0 \<and> Invoice_Total i = Penalty i - Discount i
     \<and> (Penalty i < Discount i \<longrightarrow> Invoice_Total i < 0)"
  by (simp add: Invoice_Total_def SubTotal_def)

theorem Total_no_lines_witness:
  "InvoiceLines example_invoice = [] \<and> SubTotal example_invoice = 0
   \<and> Invoice_Total example_invoice = - 15 \<and> Invoice_Total example_invoice < 0"
  using Total_no_lines [of example_invoice]
  by (simp add: example_invoice_def Invoice_zero_def)

section \<open>Identification\<close>

text \<open>
  C7. The identification of an invoice is the decimal string of its sequence number when
  the number is set and not zero (a string that reads back as that number), and the string
  form of its unique identifier when the number is nil or zero.
\<close>

theorem Identification_number_or_uuid:
  "(Number i = Some n \<and> n \<noteq> 0 \<longrightarrow>
      Identification i = Itoa n \<and> decimal_value (Identification i) = n)
   \<and> (Number i = None \<or> Number i = Some 0 \<longrightarrow> Identification i = UUID_String (UUID i))"
  by (auto simp: Identification_def decimal_value_Itoa)

theorem Identification_number_or_uuid_witness:
  "Identification example_invoice = ''4002''
   \<and> decimal_value (Identification example_invoice) = 4002
   \<and> Identification Invoice_zero = ''00000000-0000-0000-0000-000000000000''
   \<and> Identification (Invoice_zero\<lparr>Number := Some 0\<rparr>) = ''00000000-0000-0000-0000-000000000000''"
proof -
  have n: "Number example_invoice = Some 4002" "Number Invoice_zero = None"
    by (simp_all add: example_invoice_def Invoice_zero_def)
  have i: "Itoa 4002 = ''4002''" by (simp add: Itoa_def digits.simps)
  have v: "decimal_value ''4002'' = 4002"
    by (simp add: decimal_value_def dec_val_def digit_val_def)
  have u: "UUID_String UUID_zero = ''00000000-0000-0000-0000-000000000000''"
    by code_simp
  have z: "UUID Invoice_zero = UUID_zero" by (simp add: Invoice_zero_def)
  show ?thesis
    using Identification_number_or_uuid [of example_invoice 4002]
      Identification_number_or_uuid [of Invoice_zero 0]
      Identification_number_or_uuid [of "Invoice_zero\<lparr>Number := Some 0\<rparr>" 0]
    by (simp add: n i u z v)
qed

section \<open>Display name\<close>

text \<open>
  C9, as the specification words it, fails: \<open>Repr\<close> removes the space character only. A
  client name with a tab keeps the tab, so the display name is not the name with its white
  space stripped.
\<close>

theorem Repr_whitespace_counterexample:
  "Repr (Invoice_zero\<lparr>Client := Company_zero\<lparr>Company.Name := [CHR ''A'', CHR 0x09, CHR ''B'']\<rparr>\<rparr>)
     \<noteq> strip_whitespace [CHR ''A'', CHR 0x09, CHR ''B''] @ ''_invoice_'' @ Format_20060102 Time_zero"
  by (simp add: Repr_def Invoice_zero_def Company_zero_def strip_whitespace_def)

text \<open>
  C9, amended. The display name is the client's name with every space character (and no
  other character) removed, then \<open>_invoice_\<close>, then the issue date; for an issue date in the
  years 0 to 9999 the date is eight decimal digits: the year on four digits, the month and
  the day on two.
\<close>

theorem Repr_spaces_removed:
  "Repr i = filter (\<lambda>c. c \<noteq> CHR '' '') (Company.Name (Client i)) @ ''_invoice_''
              @ Format_20060102 (IssueDate i)
   \<and> (0 \<le> year (IssueDate i) \<and> year (IssueDate i) \<le> 9999
        \<and> month (IssueDate i) \<le> 12 \<and> day (IssueDate i) \<le> 31 \<longrightarrow>
        length (Format_20060102 (IssueDate i)) = 8
        \<and> set (Format_20060102 (IssueDate i)) \<subseteq> set ''0123456789''
        \<and> int (dec_val (take 4 (Format_20060102 (IssueDate i)))) = year (IssueDate i)
        \<and> dec_val (take 2 (drop 4 (Format_20060102 (IssueDate i)))) = month (IssueDate i)
        \<and> dec_val (drop 6 (Format_20060102 (IssueDate i))) = day (IssueDate i))"
  using Format_20060102_shape [of "IssueDate i"]
  by (simp add: Repr_def ReplaceAll_filter)

theorem Repr_spaces_removed_witness:
  "Repr example_invoice = ''TestCompanyLtd_invoice_20250131''
   \<and> length (Format_20060102 (IssueDate example_invoice)) = 8
   \<and> dec_val (drop 6 (Format_20060102 (IssueDate example_invoice))) = 31"
proof -
  have d: "Format_20060102 (IssueDate example_invoice) = ''20250131''"
    by (simp add: example_invoice_def Invoice_zero_def Format_20060102_def appendInt_def digits.simps)
  show ?thesis
    using Repr_spaces_removed [of example_invoice]
    by (simp add: d) (simp add: example_invoice_def Invoice_zero_def)
qed

section \<open>Deleting a parent with its lines\<close>

lemma delete_invoices_lines_subset:
  "delete_invoices P db = Inr db' \<Longrightarrow> set (invoice_lines db') \<subseteq> set (invoice_lines db)"
  by (auto simp: delete_invoices_def Let_def split: if_splits)

lemma delete_invoices_remit_lines:
  "delete_invoices P db = Inr db' \<Longrightarrow> remit_information_lines db' = remit_information_lines db"
  by (auto simp: delete_invoices_def Let_def split: if_splits)

lemma delete_invoices_gone:
  "delete_invoices P db = Inr db' \<Longrightarrow> invoices db' = filter (\<lambda>i. \<not> P i) (invoices db)"
  by (auto simp: delete_invoices_def Let_def split: if_splits)

lemma delete_remit_information_lines_subset:
  "delete_remit_information id' db = Inr db' \<Longrightarrow>
     set (remit_information_lines db') \<subseteq> set (remit_information_lines db)"
  by (auto simp: delete_remit_information_def Let_def split: if_splits
           dest!: delete_invoices_remit_lines)

lemma DeleteInvoice_no_lines:
  assumes "fst (DeleteInvoice e id' db) = None"
  shows "filter (\<lambda>l. InvoiceID l = id') (invoice_lines (snd (DeleteInvoice e id' db))) = []"
proof -
  let ?db1 = "db\<lparr>invoice_lines := filter (\<lambda>l. InvoiceID l \<noteq> id') (invoice_lines db)\<rparr>"
  from assms obtain db2 where d: "delete_invoices (\<lambda>i. Invoice.ID i = id') ?db1 = Inr db2"
    and r: "DeleteInvoice e id' db = (None, db2)"
    by (auto simp: DeleteInvoice_def exec_def delete_invoice_lines_def split: if_splits sum.splits)
  from delete_invoices_lines_subset [OF d] have "\<forall>l \<in> set (invoice_lines db2). InvoiceID l \<noteq> id'"
    by auto
  then show ?thesis by (simp add: r filter_empty_conv)
qed

lemma DeleteRemitInformation_no_lines:
  assumes "fst (DeleteRemitInformation e id' db) = None"
  shows "filter (\<lambda>l. RemitInformationLine.RemitInformationID l = id')
           (remit_information_lines (snd (DeleteRemitInformation e id' db))) = []"
proof -
  let ?db1 = "db\<lparr>remit_information_lines :=
     filter (\<lambda>l. RemitInformationLine.RemitInformationID l \<noteq> id') (remit_information_lines db)\<rparr>"
  from assms obtain db2 where d: "delete_remit_information id' ?db1 = Inr db2"
    and r: "DeleteRemitInformation e id' db = (None, db2)"
    by (auto simp: DeleteRemitInformation_def exec_def delete_remit_information_lines_def
             split: if_splits sum.splits)
  from delete_remit_information_lines_subset [OF d]
  have "\<forall>l \<in> set (remit_information_lines db2). RemitInformationLine.RemitInformationID l \<noteq> id'"
    by auto
  then show ?thesis by (simp add: r filter_empty_conv)
qed

lemma DeleteInvoice_parent_gone:
  assumes "fst (DeleteInvoice e id' db) = None"
  shows "\<not> invoice_exists id' (snd (DeleteInvoice e id' db))"
proof -
  let ?db1 = "db\<lparr>invoice_lines := filter (\<lambda>l. InvoiceID l \<noteq> id') (invoice_lines db)\<rparr>"
  from assms obtain db2 where d: "delete_invoices (\<lambda>i. Invoice.ID i = id') ?db1 = Inr db2"
    and r: "DeleteInvoice e id' db = (None, db2)"
    by (auto simp: DeleteInvoice_def exec_def delete_invoice_lines_def split: if_splits sum.splits)
  from delete_invoices_gone [OF d] show ?thesis by (simp add: r invoice_exists_def)
qed

lemma delete_remit_information_gone:
  "delete_remit_information id' db = Inr db' \<Longrightarrow>
     remit_informations db' = filter (\<lambda>r. RemitInformation.ID r \<noteq> id') (remit_informations db)"
  by (auto simp: delete_remit_information_def delete_invoices_def Let_def split: if_splits)

lemma DeleteRemitInformation_parent_gone:
  assumes "fst (DeleteRemitInformation e id' db) = None"
  shows "\<forall>r \<in> set (remit_informations (snd (DeleteRemitInformation e id' db))).
           RemitInformation.ID r \<noteq> id'"
proof -
  let ?db1 = "db\<lparr>remit_information_lines :=
     filter (\<lambda>l. RemitInformationLine.RemitInformationID l \<noteq> id') (remit_information_lines db)\<rparr>"
  from assms obtain db2 where d: "delete_remit_information id' ?db1 = Inr db2"
    and r: "DeleteRemitInformation e id' db = (None, db2)"
    by (auto simp: DeleteRemitInformation_def exec_def delete_remit_information_lines_def
             split: if_splits sum.splits)
  from delete_remit_information_gone [OF d] show ?thesis by (simp add: r)
qed

text \<open>
  C6. After a successful \<open>DeleteRemitInformation\<close> no line carries the id of the deleted
  remit information, and after a successful \<open>DeleteInvoice\<close> no invoice line carries the id
  of the deleted invoice, however many there were before; the parent row is gone as well.
\<close>

theorem delete_parent_leaves_no_lines:
  "(fst (DeleteRemitInformation e id' db) = None \<longrightarrow>
      length (filter (\<lambda>l. RemitInformationLine.RemitInformationID l = id')
                (remit_information_lines (snd (DeleteRemitInformation e id' db)))) = 0
      \<and> (\<forall>r \<in> set (remit_informations (snd (DeleteRemitInformation e id' db))).
            RemitInformation.ID r \<noteq> id'))
   \<and> (fst (DeleteInvoice e id' db) = None \<longrightarrow>
      length (filter (\<lambda>l. InvoiceID l = id') (invoice_lines (snd (DeleteInvoice e id' db)))) = 0
      \<and> \<not> invoice_exists id' (snd (DeleteInvoice e id' db)))"
  using DeleteInvoice_no_lines [of e id' db] DeleteRemitInformation_no_lines [of e id' db]
    DeleteInvoice_parent_gone [of e id' db] DeleteRemitInformation_parent_gone [of e id' db]
  by simp

theorem delete_parent_leaves_no_lines_witness:
  "length (filter (\<lambda>l. RemitInformationLine.RemitInformationID l = 1)
             (remit_information_lines (example_db False NO_ACTION))) = 2
   \<and> fst (DeleteRemitInformation no_faults 1 (example_db False NO_ACTION)) = None
   \<and> length (filter (\<lambda>l. RemitInformationLine.RemitInformationID l = 1)
        (remit_information_lines (snd (DeleteRemitInformation no_faults 1 (example_db False NO_ACTION))))) = 0
   \<and> length (filter (\<lambda>l. InvoiceID l = 1) (invoice_lines (example_db True NO_ACTION))) = 1
   \<and> fst (DeleteInvoice no_faults 1 (example_db True NO_ACTION)) = None
   \<and> length (filter (\<lambda>l. InvoiceID l = 1)
        (invoice_lines (snd (DeleteInvoice no_faults 1 (example_db True NO_ACTION))))) = 0"
proof -
  have a: "fst (DeleteRemitInformation no_faults 1 (example_db False NO_ACTION)) = None"
    by (simp add: DeleteRemitInformation_def exec_def delete_remit_information_lines_def
        delete_remit_information_def delete_invoices_def example_db_def no_faults_def Let_def)
  have b: "fst (DeleteInvoice no_faults 1 (example_db True NO_ACTION)) = None"
    by (simp add: DeleteInvoice_def exec_def delete_invoice_lines_def delete_invoices_def
        example_db_def no_faults_def InvoiceLine_zero_def Let_def)
  have c: "length (filter (\<lambda>l. RemitInformationLine.RemitInformationID l = 1)
             (remit_information_lines (example_db False NO_ACTION))) = 2"
     "length (filter (\<lambda>l. InvoiceID l = 1) (invoice_lines (example_db True NO_ACTION))) = 1"
    by (simp_all add: example_db_def InvoiceLine_zero_def)
  show ?thesis
    using delete_parent_leaves_no_lines [of no_faults 1 "example_db False NO_ACTION"]
      delete_parent_leaves_no_lines [of no_faults 1 "example_db True NO_ACTION"] a b c
    by simp
qed

section \<open>Deleting a product or a company that is referred to\<close>

lemma DeleteProduct_restricted:
  assumes "foreign_keys db" "\<exists>p \<in> set (products db). Product.ID p = id'"
    "\<exists>l \<in> set (invoice_lines db). ProductID l = id'"
  shows "fst (DeleteProduct e id' db) \<noteq> None \<and> snd (DeleteProduct e id' db) = db"
  using assms by (simp add: DeleteProduct_def exec_def delete_product_def)

text \<open>
  C3. Deleting a product that an invoice line refers to has to fail and leave product and
  line in place. On a connection that enforces foreign keys it does
  (\<open>DeleteProduct_restricted\<close>). On the connection the repository opens, which does not
  switch foreign keys on, the delete returns no error, the product row is gone and the
  line keeps the key of the deleted product.
\<close>

theorem DeleteProduct_without_foreign_keys:
  "map ProductID (invoice_lines (example_db False NO_ACTION)) = [1]
   \<and> map Product.ID (products (example_db False NO_ACTION)) = [1]
   \<and> DeleteProduct no_faults 1 (example_db False NO_ACTION)
       = (None, (example_db False NO_ACTION)\<lparr>products := []\<rparr>)"
  by (simp add: DeleteProduct_def exec_def delete_product_def example_db_def no_faults_def
        InvoiceLine_zero_def)

lemma UpdateInvoice_rollback:
  "fst (UpdateInvoice e invoice db) \<noteq> None \<Longrightarrow> snd (UpdateInvoice e invoice db) = db"
  by (auto simp: UpdateInvoice_def exec_def split: sum.splits)

text \<open>
  C5. The multi-step operations have to be all-or-nothing. \<open>UpdateInvoice\<close> is
  (\<open>UpdateInvoice_rollback\<close>); the two deletes are not: when the second statement
  fails, the error is returned and the lines are already deleted while the parent row
  remains. This happens when the store fails at that statement, and for a remit information
  also when an invoice with lines refers to it and the line constraint does not cascade.
\<close>

theorem delete_not_atomic:
  "DeleteInvoice (no_faults\<lparr>faults := (\<lambda>k. k = 1)\<rparr>) 1 (example_db True CASCADE)
     = (Some ErrStore, (example_db True CASCADE)\<lparr>invoice_lines := []\<rparr>)
   \<and> DeleteRemitInformation (no_faults\<lparr>faults := (\<lambda>k. k = 1)\<rparr>) 1 (example_db True CASCADE)
     = (Some ErrStore, (example_db True CASCADE)\<lparr>remit_information_lines := []\<rparr>)
   \<and> DeleteRemitInformation no_faults 1 (example_db True NO_ACTION)
     = (Some ErrForeignKeyViolated, (example_db True NO_ACTION)\<lparr>remit_information_lines := []\<rparr>)"
  by (simp add: DeleteInvoice_def DeleteRemitInformation_def exec_def delete_invoice_lines_def
        delete_remit_information_lines_def delete_remit_information_def delete_invoices_def
        example_db_def no_faults_def InvoiceLine_zero_def Invoice_zero_def Let_def)

text \<open>
  C4, as the specification words it, fails: the delete of a company that an invoice names
  as issuer and client returns no error. With foreign keys enforced and no line on the
  invoice, the invoice is deleted with the company; on a connection that does not enforce
  foreign keys, the invoice stays and refers to a company that is gone.
\<close>

theorem DeleteCompany_counterexample:
  "map CompanyID (invoices ((example_db True NO_ACTION)\<lparr>invoice_lines := []\<rparr>)) = [1]
   \<and> fst (DeleteCompany no_faults 1 ((example_db True NO_ACTION)\<lparr>invoice_lines := []\<rparr>)) = None
   \<and> invoices (snd (DeleteCompany no_faults 1 ((example_db True NO_ACTION)\<lparr>invoice_lines := []\<rparr>))) = []
   \<and> map CompanyID (invoices (example_db False NO_ACTION)) = [1]
   \<and> fst (DeleteCompany no_faults 1 (example_db False NO_ACTION)) = None
   \<and> companies (snd (DeleteCompany no_faults 1 (example_db False NO_ACTION))) = []
   \<and> map CompanyID (invoices (snd (DeleteCompany no_faults 1 (example_db False NO_ACTION)))) = [1]"
  by (simp add: DeleteCompany_def exec_def delete_company_def delete_invoices_def
        example_db_def no_faults_def InvoiceLine_zero_def Invoice_zero_def Let_def)

text \<open>
  C4, amended. On a connection that enforces foreign keys, with the schema of the program
  (an invoice's references to its companies cascade, the references of the lines to their
  invoice do not), the delete of an existing company is rejected, and the store left as it
  was, when an invoice that names the company as issuer or client has a line. When no such
  invoice has a line and the store does not fail, the delete succeeds and removes the
  company together with every invoice that names it; the lines in the store, which belong
  to other invoices, stay.
\<close>

theorem DeleteCompany_rejected_or_cascades:
  assumes "foreign_keys db" and "lines_rule db = NO_ACTION"
    and "\<exists>c \<in> set (companies db). Company.ID c = id'"
  shows "((\<exists>i \<in> set (invoices db). (CompanyID i = id' \<or> ClientID i = id')
                  \<and> (\<exists>l \<in> set (invoice_lines db). InvoiceID l = Invoice.ID i)) \<longrightarrow>
          fst (DeleteCompany e id' db) \<noteq> None \<and> snd (DeleteCompany e id' db) = db)
     \<and> (\<not> faults e 0
            \<and> \<not> (\<exists>i \<in> set (invoices db). (CompanyID i = id' \<or> ClientID i = id')
                  \<and> (\<exists>l \<in> set (invoice_lines db). InvoiceID l = Invoice.ID i)) \<longrightarrow>
          fst (DeleteCompany e id' db) = None
          \<and> companies (snd (DeleteCompany e id' db)) = filter (\<lambda>c. Company.ID c \<noteq> id') (companies db)
          \<and> invoices (snd (DeleteCompany e id' db))
              = filter (\<lambda>i. CompanyID i \<noteq> id' \<and> ClientID i \<noteq> id') (invoices db)
          \<and> invoice_lines (snd (DeleteCompany e id' db)) = invoice_lines db)"
proof (intro conjI impI)
  assume a: "\<exists>i \<in> set (invoices db). (CompanyID i = id' \<or> ClientID i = id')
                  \<and> (\<exists>l \<in> set (invoice_lines db). InvoiceID l = Invoice.ID i)"
  then have "\<exists>l \<in> set (invoice_lines db).
      InvoiceID l \<in> Invoice.ID ` {i \<in> set (invoices db). CompanyID i = id' \<or> ClientID i = id'}"
    by blast
  with assms
  have "delete_company id' db = Inl ErrForeignKeyViolated"
    by (simp add: delete_company_def delete_invoices_def Let_def)
  then show "fst (DeleteCompany e id' db) \<noteq> None" "snd (DeleteCompany e id' db) = db"
    by (simp_all add: DeleteCompany_def exec_def)
next
  assume a: "\<not> faults e 0
            \<and> \<not> (\<exists>i \<in> set (invoices db). (CompanyID i = id' \<or> ClientID i = id')
                  \<and> (\<exists>l \<in> set (invoice_lines db). InvoiceID l = Invoice.ID i))"
  then have "\<not> (\<exists>l \<in> set (invoice_lines db).
      InvoiceID l \<in> Invoice.ID ` {i \<in> set (invoices db). CompanyID i = id' \<or> ClientID i = id'})"
    by blast
  with a assms
  have "DeleteCompany e id' db
     = (None, db\<lparr>companies := filter (\<lambda>c. Company.ID c \<noteq> id') (companies db),
                  invoices := filter (\<lambda>i. CompanyID i \<noteq> id' \<and> ClientID i \<noteq> id') (invoices db)\<rparr>)"
    by (simp add: DeleteCompany_def exec_def delete_company_def delete_invoices_def Let_def)
  then show "fst (DeleteCompany e id' db) = None"
    "companies (snd (DeleteCompany e id' db)) = filter (\<lambda>c. Company.ID c \<noteq> id') (companies db)"
    "invoices (snd (DeleteCompany e id' db))
              = filter (\<lambda>i. CompanyID i \<noteq> id' \<and> ClientID i \<noteq> id') (invoices db)"
    "invoice_lines (snd (DeleteCompany e id' db)) = invoice_lines db"
    by simp_all
qed

theorem DeleteCompany_rejected_or_cascades_witness:
  "fst (DeleteCompany no_faults 1 (example_db True NO_ACTION)) \<noteq> None
   \<and> snd (DeleteCompany no_faults 1 (example_db True NO_ACTION)) = example_db True NO_ACTION
   \<and> fst (DeleteCompany no_faults 1 ((example_db True NO_ACTION)\<lparr>invoice_lines := []\<rparr>)) = None
   \<and> companies (snd (DeleteCompany no_faults 1 ((example_db True NO_ACTION)\<lparr>invoice_lines := []\<rparr>))) = []
   \<and> invoices (snd (DeleteCompany no_faults 1 ((example_db True NO_ACTION)\<lparr>invoice_lines := []\<rparr>))) = []"
proof -
  have f: "foreign_keys (example_db True NO_ACTION)"
    "foreign_keys ((example_db True NO_ACTION)\<lparr>invoice_lines := []\<rparr>)"
    by (simp_all add: example_db_def)
  have r: "lines_rule (example_db True NO_ACTION) = NO_ACTION"
    "lines_rule ((example_db True NO_ACTION)\<lparr>invoice_lines := []\<rparr>) = NO_ACTION"
    by (simp_all add: example_db_def)
  have c: "\<exists>c \<in> set (companies (example_db True NO_ACTION)). Company.ID c = 1"
    "\<exists>c \<in> set (companies ((example_db True NO_ACTION)\<lparr>invoice_lines := []\<rparr>)). Company.ID c = 1"
    by (simp_all add: example_db_def)
  have h1: "\<exists>i \<in> set (invoices (example_db True NO_ACTION)). (CompanyID i = 1 \<or> ClientID i = 1)
           \<and> (\<exists>l \<in> set (invoice_lines (example_db True NO_ACTION)). InvoiceID l = Invoice.ID i)"
    by (simp add: example_db_def Invoice_zero_def InvoiceLine_zero_def)
  have h2: "\<not> faults no_faults 0
     \<and> \<not> (\<exists>i \<in> set (invoices ((example_db True NO_ACTION)\<lparr>invoice_lines := []\<rparr>)).
             (CompanyID i = 1 \<or> ClientID i = 1)
           \<and> (\<exists>l \<in> set (invoice_lines ((example_db True NO_ACTION)\<lparr>invoice_lines := []\<rparr>)).
                 InvoiceID l = Invoice.ID i))"
    by (simp add: example_db_def no_faults_def)
  have v: "filter (\<lambda>c. Company.ID c \<noteq> 1) (companies ((example_db True NO_ACTION)\<lparr>invoice_lines := []\<rparr>)) = []"
    "filter (\<lambda>i. CompanyID i \<noteq> 1 \<and> ClientID i \<noteq> 1)
       (invoices ((example_db True NO_ACTION)\<lparr>invoice_lines := []\<rparr>)) = []"
    by (simp_all add: example_db_def Invoice_zero_def)
  from DeleteCompany_rejected_or_cascades [OF f(1) r(1) c(1), of no_faults] h1
  have a: "fst (DeleteCompany no_faults 1 (example_db True NO_ACTION)) \<noteq> None
       \<and> snd (DeleteCompany no_faults 1 (example_db True NO_ACTION)) = example_db True NO_ACTION"
    by blast
  from DeleteCompany_rejected_or_cascades [OF f(2) r(2) c(2), of no_faults] h2
  have b: "fst (DeleteCompany no_faults 1 ((example_db True NO_ACTION)\<lparr>invoice_lines := []\<rparr>)) = None
     \<and> companies (snd (DeleteCompany no_faults 1 ((example_db True NO_ACTION)\<lparr>invoice_lines := []\<rparr>)))
         = filter (\<lambda>c. Company.ID c \<noteq> 1) (companies ((example_db True NO_ACTION)\<lparr>invoice_lines := []\<rparr>))
     \<and> invoices (snd (DeleteCompany no_faults 1 ((example_db True NO_ACTION)\<lparr>invoice_lines := []\<rparr>)))
         = filter (\<lambda>i. CompanyID i \<noteq> 1 \<and> ClientID i \<noteq> 1)
             (invoices ((example_db True NO_ACTION)\<lparr>invoice_lines := []\<rparr>))"
    by blast
  show ?thesis
    using a b by (simp only: v simp_thms)
qed

section \<open>Replacing the lines of an invoice\<close>

lemma fold_max_ge: "(a::nat) \<le> fold max xs a"
  by (induction xs arbitrary: a) (auto intro: order_trans [OF max.cobounded2])

lemma fold_max_mem: "(x::nat) \<in> set xs \<Longrightarrow> x \<le> fold max xs a"
proof (induction xs arbitrary: a)
  case Nil
  then show ?case by simp
next
  case (Cons y ys)
  show ?case
  proof (cases "x = y")
    case True
    have "y \<le> max y a" by simp
    also have "\<dots> \<le> fold max ys (max y a)" by (rule fold_max_ge)
    finally show ?thesis using True by simp
  next
    case False
    with Cons show ?thesis by simp
  qed
qed

lemma next_id_fresh: "x \<in> set ids \<Longrightarrow> x < next_id seq ids"
  using fold_max_mem [of x ids 0] by (simp add: next_id_def)

lemma next_id_above: "seq < next_id seq ids"
  by (simp add: next_id_def)

lemma insort_key_fresh:
  fixes f :: "'a \<Rightarrow> nat"
  shows "\<forall>r \<in> set rows. f r < f x \<Longrightarrow> insort_key f x rows = rows @ [x]"
  by (induction rows) auto

lemma save_company_tables:
  "invoices (snd (save_company c db)) = invoices db"
  "invoice_lines (snd (save_company c db)) = invoice_lines db"
  "seq_invoice_lines (snd (save_company c db)) = seq_invoice_lines db"
  "products (snd (save_company c db)) = products db"
  "foreign_keys (snd (save_company c db)) = foreign_keys db"
  by (simp_all add: save_company_def Let_def)

lemma save_product_tables:
  "invoices (snd (save_product p db)) = invoices db"
  "invoice_lines (snd (save_product p db)) = invoice_lines db"
  "seq_invoice_lines (snd (save_product p db)) = seq_invoice_lines db"
  "foreign_keys (snd (save_product p db)) = foreign_keys db"
  by (simp_all add: save_product_def Let_def)

lemma save_line_product_tables:
  "invoices (snd (save_line_product l db)) = invoices db"
  "invoice_lines (snd (save_line_product l db)) = invoice_lines db"
  "seq_invoice_lines (snd (save_line_product l db)) = seq_invoice_lines db"
  "foreign_keys (snd (save_line_product l db)) = foreign_keys db"
  by (simp_all add: save_line_product_def save_product_tables split_beta)

lemma save_line_product_line:
  "InvoiceLine.ID (fst (save_line_product l db)) = InvoiceLine.ID l"
  "InvoiceID (fst (save_line_product l db)) = InvoiceID l"
  "Quantity (fst (save_line_product l db)) = Quantity l"
  "InvoiceLine.Description (fst (save_line_product l db)) = InvoiceLine.Description l"
  by (simp_all add: save_line_product_def split_beta)

lemma save_line_product_ProductID:
  assumes "Product l = Product_zero \<or> (Product.ID (Product l) = ProductID l \<and> ProductID l \<noteq> 0)"
  shows "ProductID (fst (save_line_product l db)) = ProductID l"
  using assms by (auto simp: save_line_product_def save_product_def split_beta Let_def)

lemma save_line_product_zero: "Product l = Product_zero \<Longrightarrow> save_line_product l db = (l, db)"
  by (simp add: save_line_product_def)

lemma insert_remit_information_line_tables:
  assumes "insert_remit_information_line l db = Inr (l', db')"
  shows "invoices db' = invoices db \<and> invoice_lines db' = invoice_lines db
     \<and> seq_invoice_lines db' = seq_invoice_lines db \<and> products db' = products db
     \<and> foreign_keys db' = foreign_keys db"
  using assms by (auto simp: insert_remit_information_line_def Let_def split: if_splits)

lemma save_remit_information_lines_tables:
  "save_remit_information_lines seen ls db = Inr (out, db') \<Longrightarrow>
     invoices db' = invoices db \<and> invoice_lines db' = invoice_lines db
     \<and> seq_invoice_lines db' = seq_invoice_lines db \<and> products db' = products db
     \<and> foreign_keys db' = foreign_keys db"
proof (induction ls arbitrary: seen db out)
  case Nil
  then show ?case by simp
next
  case (Cons l ls)
  show ?case
  proof (cases "RemitInformationLine.ID l \<noteq> 0 \<and> RemitInformationLine.ID l \<in> set seen")
    case True
    with Cons.prems obtain out' where "save_remit_information_lines seen ls db = Inr (out', db')"
      by (auto split: sum.splits)
    then show ?thesis by (rule Cons.IH)
  next
    case False
    with Cons.prems obtain l' db1 out' where i: "insert_remit_information_line l db = Inr (l', db1)"
      and s: "save_remit_information_lines (RemitInformationLine.ID l # seen) ls db1 = Inr (out', db')"
      by (auto split: sum.splits)
    from Cons.IH [OF s] insert_remit_information_line_tables [OF i] show ?thesis by simp
  qed
qed

lemma save_remit_information_tables:
  assumes "save_remit_information r db = Inr (r', db')"
  shows "invoices db' = invoices db \<and> invoice_lines db' = invoice_lines db
     \<and> seq_invoice_lines db' = seq_invoice_lines db \<and> products db' = products db
     \<and> foreign_keys db' = foreign_keys db"
proof -
  from assms obtain seen ls db1 out where
    s: "save_remit_information_lines seen ls db1 = Inr (out, db')"
    and d: "invoices db1 = invoices db \<and> invoice_lines db1 = invoice_lines db
     \<and> seq_invoice_lines db1 = seq_invoice_lines db \<and> products db1 = products db
     \<and> foreign_keys db1 = foreign_keys db"
    by (auto simp: save_remit_information_def Let_def split: if_splits sum.splits)
  from save_remit_information_lines_tables [OF s] d show ?thesis by simp
qed

lemma SaveBeforeAssociations_tables:
  assumes "SaveBeforeAssociations invoice db = Inr (invoice', db')"
  shows "invoices db' = invoices db \<and> invoice_lines db' = invoice_lines db
     \<and> seq_invoice_lines db' = seq_invoice_lines db \<and> products db' = products db
     \<and> foreign_keys db' = foreign_keys db
     \<and> Invoice.ID invoice' = Invoice.ID invoice \<and> UUID invoice' = UUID invoice
     \<and> InvoiceLines invoice' = InvoiceLines invoice"
proof -
  define step1 where "step1 =
    (if RemitInformation invoice = RemitInformation_zero then Inr (invoice, db)
     else case save_remit_information (RemitInformation invoice) db of
            Inl err \<Rightarrow> Inl err
          | Inr (r, db1) \<Rightarrow>
              Inr (invoice\<lparr>RemitInformation := r,
                           Invoice.RemitInformationID := RemitInformation.ID r\<rparr>, db1))"
  from assms obtain invoice1 db1 where s1: "step1 = Inr (invoice1, db1)"
    by (auto simp: SaveBeforeAssociations_def step1_def [symmetric] split: sum.splits)
  have t1: "invoices db1 = invoices db \<and> invoice_lines db1 = invoice_lines db
     \<and> seq_invoice_lines db1 = seq_invoice_lines db \<and> products db1 = products db
     \<and> foreign_keys db1 = foreign_keys db
     \<and> Invoice.ID invoice1 = Invoice.ID invoice \<and> UUID invoice1 = UUID invoice
     \<and> InvoiceLines invoice1 = InvoiceLines invoice"
    using s1 unfolding step1_def
    by (auto split: if_splits sum.splits dest!: save_remit_information_tables)
  from assms s1 t1 show ?thesis
    unfolding SaveBeforeAssociations_def step1_def [symmetric]
    by (auto simp: split_beta Let_def save_company_tables split: if_splits)
qed

lemma insert_invoice_line_tables:
  "insert_invoice_line l db = Inr (l', db') \<Longrightarrow>
     invoices db' = invoices db \<and> products db' = products db \<and> foreign_keys db' = foreign_keys db"
  by (auto simp: insert_invoice_line_def Let_def split: if_splits)

lemma insert_invoice_line_fresh:
  assumes "insert_invoice_line l db = Inr (l', db')"
    and "InvoiceLine.ID l \<noteq> 0 \<longrightarrow> InvoiceLine.ID l \<notin> InvoiceLine.ID ` set (invoice_lines db)"
    and "Quantity l \<noteq> 0"
  shows "invoice_lines db' = insort_key InvoiceLine.ID (invoice_line_columns l') (invoice_lines db)"
    and "seq_invoice_lines db' = max (seq_invoice_lines db) (InvoiceLine.ID l')"
    and "InvoiceLine.ID l' = (if InvoiceLine.ID l = 0
           then next_id (seq_invoice_lines db) (map InvoiceLine.ID (invoice_lines db))
           else InvoiceLine.ID l)"
    and "line_data l' = line_data l" and "InvoiceID l' = InvoiceID l"
proof -
  from assms(2) have n: "\<not> (InvoiceLine.ID l \<noteq> 0
      \<and> (\<exists>r \<in> set (invoice_lines db). InvoiceLine.ID r = InvoiceLine.ID l))"
    by (auto simp: image_iff)
  let ?k = "if InvoiceLine.ID l = 0
           then next_id (seq_invoice_lines db) (map InvoiceLine.ID (invoice_lines db))
           else InvoiceLine.ID l"
  from assms(1) n assms(3) have l': "l' = l\<lparr>InvoiceLine.ID := ?k\<rparr>"
    and d: "db' = db\<lparr>invoice_lines := insort_key InvoiceLine.ID (invoice_line_columns l') (invoice_lines db),
                     seq_invoice_lines := max (seq_invoice_lines db) (InvoiceLine.ID l')\<rparr>"
    by (auto simp: insert_invoice_line_def Let_def split: if_splits)
  show "invoice_lines db' = insort_key InvoiceLine.ID (invoice_line_columns l') (invoice_lines db)"
    and "seq_invoice_lines db' = max (seq_invoice_lines db) (InvoiceLine.ID l')"
    by (simp_all add: d)
  show "InvoiceLine.ID l' = ?k" "line_data l' = line_data l" "InvoiceID l' = InvoiceID l"
    by (simp_all add: l' line_data_def)
qed

lemma save_invoice_lines_tables:
  "save_invoice_lines seen ls db = Inr (out, db') \<Longrightarrow>
     invoices db' = invoices db \<and> foreign_keys db' = foreign_keys db"
proof (induction ls arbitrary: seen db out)
  case Nil
  then show ?case by simp
next
  case (Cons l ls)
  show ?case
  proof (cases "InvoiceLine.ID l \<noteq> 0 \<and> InvoiceLine.ID l \<in> set seen")
    case True
    with Cons.prems obtain out' where "save_invoice_lines seen ls db = Inr (out', db')"
      by (auto split: sum.splits)
    then show ?thesis by (rule Cons.IH)
  next
    case False
    with Cons.prems obtain l' db1 out' where
      i: "insert_invoice_line (fst (save_line_product l db)) (snd (save_line_product l db)) = Inr (l', db1)"
      and s: "save_invoice_lines (InvoiceLine.ID l # seen) ls db1 = Inr (out', db')"
      by (auto split: sum.splits)
    from Cons.IH [OF s] insert_invoice_line_tables [OF i] show ?thesis
      by (simp add: save_line_product_tables)
  qed
qed

lemma save_invoice_lines_mset:
  assumes "save_invoice_lines seen ls db = Inr (out, db')"
    and "\<forall>l \<in> set ls. Quantity l \<noteq> 0
           \<and> (Product l = Product_zero \<or> (Product.ID (Product l) = ProductID l \<and> ProductID l \<noteq> 0))"
    and "\<forall>l \<in> set ls. InvoiceLine.ID l \<noteq> 0 \<longrightarrow>
           InvoiceLine.ID l \<notin> set seen \<and> InvoiceLine.ID l \<le> seq_invoice_lines db
           \<and> InvoiceLine.ID l \<notin> InvoiceLine.ID ` set (invoice_lines db)"
    and "distinct (filter (\<lambda>k. k \<noteq> 0) (map InvoiceLine.ID ls))"
  shows "mset (invoice_lines db') = mset (invoice_lines db) + mset (map invoice_line_columns out)
       \<and> map line_data out = map line_data ls \<and> map InvoiceID out = map InvoiceID ls"
  using assms
proof (induction ls arbitrary: seen db out)
  case Nil
  then show ?case by simp
next
  case (Cons l ls)
  let ?lp = "fst (save_line_product l db)"
  let ?dbp = "snd (save_line_product l db)"
  from Cons.prems(2) have q: "Quantity l \<noteq> 0"
    and p: "Product l = Product_zero \<or> (Product.ID (Product l) = ProductID l \<and> ProductID l \<noteq> 0)"
    and rest2: "\<forall>l \<in> set ls. Quantity l \<noteq> 0
           \<and> (Product l = Product_zero \<or> (Product.ID (Product l) = ProductID l \<and> ProductID l \<noteq> 0))"
    by simp_all
  from Cons.prems(3) have k: "InvoiceLine.ID l \<noteq> 0 \<longrightarrow>
           InvoiceLine.ID l \<notin> set seen \<and> InvoiceLine.ID l \<le> seq_invoice_lines db
           \<and> InvoiceLine.ID l \<notin> InvoiceLine.ID ` set (invoice_lines db)"
    and rest3: "\<forall>l \<in> set ls. InvoiceLine.ID l \<noteq> 0 \<longrightarrow>
           InvoiceLine.ID l \<notin> set seen \<and> InvoiceLine.ID l \<le> seq_invoice_lines db
           \<and> InvoiceLine.ID l \<notin> InvoiceLine.ID ` set (invoice_lines db)"
    by simp_all
  from Cons.prems(4) have d: "distinct (filter (\<lambda>k. k \<noteq> 0) (map InvoiceLine.ID ls))"
    and neq: "\<forall>l2 \<in> set ls. InvoiceLine.ID l2 \<noteq> 0 \<longrightarrow> InvoiceLine.ID l2 \<noteq> InvoiceLine.ID l"
    by (auto split: if_splits simp: image_iff)
  from k have ns: "\<not> (InvoiceLine.ID l \<noteq> 0 \<and> InvoiceLine.ID l \<in> set seen)" by blast
  from Cons.prems(1) ns obtain l' db1 out' where
    i: "insert_invoice_line ?lp ?dbp = Inr (l', db1)"
    and s: "save_invoice_lines (InvoiceLine.ID l # seen) ls db1 = Inr (out', db')"
    and o: "out = l' # out'"
    by (auto split: sum.splits)
  have lp: "InvoiceLine.ID ?lp = InvoiceLine.ID l" "Quantity ?lp = Quantity l"
    "InvoiceID ?lp = InvoiceID l" "line_data ?lp = line_data l"
    by (simp_all add: save_line_product_line save_line_product_ProductID [OF p] line_data_def)
  have dbp: "invoice_lines ?dbp = invoice_lines db" "seq_invoice_lines ?dbp = seq_invoice_lines db"
    by (simp_all add: save_line_product_tables)
  have f1: "InvoiceLine.ID ?lp \<noteq> 0 \<longrightarrow> InvoiceLine.ID ?lp \<notin> InvoiceLine.ID ` set (invoice_lines ?dbp)"
    using k by (simp add: lp dbp)
  have f2: "Quantity ?lp \<noteq> 0" using q by (simp add: lp)
  note n = insert_invoice_line_fresh [OF i f1 f2]
  have tab: "invoice_lines db1 = insort_key InvoiceLine.ID (invoice_line_columns l') (invoice_lines db)"
    and sq: "seq_invoice_lines db1 = max (seq_invoice_lines db) (InvoiceLine.ID l')"
    and key: "InvoiceLine.ID l' = (if InvoiceLine.ID l = 0
           then next_id (seq_invoice_lines db) (map InvoiceLine.ID (invoice_lines db))
           else InvoiceLine.ID l)"
    and dat: "line_data l' = line_data l" and inv: "InvoiceID l' = InvoiceID l"
    using n by (simp_all add: lp dbp)
  have keys1: "InvoiceLine.ID ` set (invoice_lines db1)
       = insert (InvoiceLine.ID l') (InvoiceLine.ID ` set (invoice_lines db))"
    by (simp add: tab set_insort_key invoice_line_columns_def)
  have prem3: "\<forall>l2 \<in> set ls. InvoiceLine.ID l2 \<noteq> 0 \<longrightarrow>
           InvoiceLine.ID l2 \<notin> set (InvoiceLine.ID l # seen) \<and> InvoiceLine.ID l2 \<le> seq_invoice_lines db1
           \<and> InvoiceLine.ID l2 \<notin> InvoiceLine.ID ` set (invoice_lines db1)"
  proof (intro ballI impI)
    fix l2 assume m: "l2 \<in> set ls" and z: "InvoiceLine.ID l2 \<noteq> 0"
    from rest3 m z have a: "InvoiceLine.ID l2 \<notin> set seen"
      and b: "InvoiceLine.ID l2 \<le> seq_invoice_lines db"
      and c: "InvoiceLine.ID l2 \<notin> InvoiceLine.ID ` set (invoice_lines db)" by blast+
    from neq m z have e: "InvoiceLine.ID l2 \<noteq> InvoiceLine.ID l" by blast
    have g: "InvoiceLine.ID l2 \<noteq> InvoiceLine.ID l'"
    proof (cases "InvoiceLine.ID l = 0")
      case True
      with key have "seq_invoice_lines db < InvoiceLine.ID l'" by (simp add: next_id_above)
      with b show ?thesis by simp
    next
      case False
      with key e show ?thesis by simp
    qed
    from a b c e g show "InvoiceLine.ID l2 \<notin> set (InvoiceLine.ID l # seen)
        \<and> InvoiceLine.ID l2 \<le> seq_invoice_lines db1
        \<and> InvoiceLine.ID l2 \<notin> InvoiceLine.ID ` set (invoice_lines db1)"
      by (simp add: sq keys1)
  qed
  from Cons.IH [OF s rest2 prem3 d]
  have ih: "mset (invoice_lines db') = mset (invoice_lines db1) + mset (map invoice_line_columns out')"
    and ih2: "map line_data out' = map line_data ls" "map InvoiceID out' = map InvoiceID ls"
    by simp_all
  show ?case
    by (simp add: o ih ih2 tab dat inv)
qed

lemma save_invoice_lines_new:
  assumes "save_invoice_lines seen ls db = Inr (out, db')"
    and "\<forall>l \<in> set ls. InvoiceLine.ID l = 0 \<and> Quantity l \<noteq> 0"
  shows "invoice_lines db' = invoice_lines db @ map invoice_line_columns out"
  using assms
proof (induction ls arbitrary: seen db out)
  case Nil
  then show ?case by simp
next
  case (Cons l ls)
  let ?lp = "fst (save_line_product l db)"
  let ?dbp = "snd (save_line_product l db)"
  from Cons.prems(2) have l0: "InvoiceLine.ID l = 0" and q: "Quantity l \<noteq> 0"
    and rest: "\<forall>l \<in> set ls. InvoiceLine.ID l = 0 \<and> Quantity l \<noteq> 0" by simp_all
  from Cons.prems(1) l0 obtain l' db1 out' where
    i: "insert_invoice_line ?lp ?dbp = Inr (l', db1)"
    and s: "save_invoice_lines (InvoiceLine.ID l # seen) ls db1 = Inr (out', db')"
    and o: "out = l' # out'"
    by (auto split: sum.splits)
  have f1: "InvoiceLine.ID ?lp \<noteq> 0 \<longrightarrow> InvoiceLine.ID ?lp \<notin> InvoiceLine.ID ` set (invoice_lines ?dbp)"
    using l0 by (simp add: save_line_product_line)
  have f2: "Quantity ?lp \<noteq> 0" using q by (simp add: save_line_product_line)
  note n = insert_invoice_line_fresh [OF i f1 f2]
  from n(3) l0 have key: "InvoiceLine.ID l'
      = next_id (seq_invoice_lines db) (map InvoiceLine.ID (invoice_lines db))"
    by (simp add: save_line_product_line save_line_product_tables)
  have "\<forall>r \<in> set (invoice_lines db). InvoiceLine.ID r < InvoiceLine.ID (invoice_line_columns l')"
    using next_id_fresh [of _ "map InvoiceLine.ID (invoice_lines db)" "seq_invoice_lines db"]
    by (simp add: key invoice_line_columns_def)
  with n(1) have "invoice_lines db1 = invoice_lines db @ [invoice_line_columns l']"
    by (simp add: save_line_product_tables insort_key_fresh)
  with Cons.IH [OF s rest] o show ?case by simp
qed

lemma invoice_exists_ids: "invoice_exists k db \<longleftrightarrow> k \<in> set (map Invoice.ID (invoices db))"
  by (auto simp: invoice_exists_def)

lemma update_invoice_ids:
  assumes "update_invoice invoice db = Inr db'"
  shows "map Invoice.ID (invoices db') = map Invoice.ID (invoices db)"
proof -
  have "\<And>r. Invoice.ID (if Invoice.ID r = Invoice.ID invoice then invoice_columns invoice else r)
            = Invoice.ID r"
    by (simp add: invoice_columns_def)
  with assms show ?thesis
    by (auto simp: update_invoice_def o_def split: if_splits)
qed

lemma update_invoice_tables:
  assumes "update_invoice invoice db = Inr db'"
  shows "invoice_lines db' = invoice_lines db \<and> seq_invoice_lines db' = seq_invoice_lines db
     \<and> products db' = products db \<and> foreign_keys db' = foreign_keys db
     \<and> (invoice_exists k db' \<longleftrightarrow> invoice_exists k db)"
proof -
  from assms have "invoice_lines db' = invoice_lines db \<and> seq_invoice_lines db' = seq_invoice_lines db
     \<and> products db' = products db \<and> foreign_keys db' = foreign_keys db"
    by (auto simp: update_invoice_def split: if_splits)
  with update_invoice_ids [OF assms] show ?thesis by (simp add: invoice_exists_ids)
qed

lemma find_invoice:
  "invoice_exists k db \<Longrightarrow> \<exists>row. find (\<lambda>i. Invoice.ID i = k) (invoices db) = Some row"
  by (cases "find (\<lambda>i. Invoice.ID i = k) (invoices db)") (auto simp: find_None_iff invoice_exists_def)

lemma UpdateInvoice_cases:
  "(\<exists>err. UpdateInvoice e invoice db = (Some err, db)) \<or>
   (\<exists>invoice' db2. \<not> faults e 0 \<and> \<not> faults e 1
      \<and> Save e invoice (db\<lparr>invoice_lines :=
            filter (\<lambda>l. InvoiceID l \<noteq> Invoice.ID invoice) (invoice_lines db)\<rparr>) = Inr (invoice', db2)
      \<and> UpdateInvoice e invoice db = (None, db2))"
  by (auto simp: UpdateInvoice_def exec_def delete_invoice_lines_def split: sum.splits)

lemma Save_existing:
  assumes "Save e invoice db = Inr (invoice', db2)" "Invoice.ID invoice \<noteq> 0"
    "invoice_exists (Invoice.ID invoice) db"
    and "\<forall>l \<in> set (InvoiceLines invoice). Quantity l \<noteq> 0
           \<and> (Product l = Product_zero \<or> (Product.ID (Product l) = ProductID l \<and> ProductID l \<noteq> 0))"
    and "\<forall>l \<in> set (InvoiceLines invoice). InvoiceLine.ID l \<noteq> 0 \<longrightarrow>
           InvoiceLine.ID l \<le> seq_invoice_lines db
           \<and> InvoiceLine.ID l \<notin> InvoiceLine.ID ` set (invoice_lines db)"
    and "distinct (filter (\<lambda>k. k \<noteq> 0) (map InvoiceLine.ID (InvoiceLines invoice)))"
  shows "\<exists>out. mset (invoice_lines db2) = mset (invoice_lines db) + mset (map invoice_line_columns out)
           \<and> map line_data out = map line_data (InvoiceLines invoice)
           \<and> (\<forall>l \<in> set out. InvoiceID l = Invoice.ID invoice)
           \<and> invoice_exists (Invoice.ID invoice) db2
           \<and> ((\<forall>l \<in> set (InvoiceLines invoice). InvoiceLine.ID l = 0) \<longrightarrow>
                 invoice_lines db2 = invoice_lines db @ map invoice_line_columns out)"
proof -
  let ?k = "Invoice.ID invoice"
  from assms(1-3) obtain invoice1 dbA dbB where
    sb: "SaveBeforeAssociations invoice db = Inr (invoice1, dbA)"
    and u: "update_invoice invoice1 dbA = Inr dbB"
    and sa: "SaveAfterAssociations invoice1 dbB = Inr (invoice', db2)"
    by (auto simp: Save_def split: sum.splits if_splits)
  note tA = SaveBeforeAssociations_tables [OF sb]
  note tB = update_invoice_tables [OF u, of ?k]
  from tA have i1: "Invoice.ID invoice1 = ?k" "InvoiceLines invoice1 = InvoiceLines invoice"
    by simp_all
  from tA tB have tl: "invoice_lines dbB = invoice_lines db"
    "seq_invoice_lines dbB = seq_invoice_lines db" by simp_all
  from tA tB assms(3) have exB: "invoice_exists ?k dbB" by (simp add: invoice_exists_def)
  let ?ls = "map (\<lambda>l. l\<lparr>InvoiceID := ?k\<rparr>) (InvoiceLines invoice)"
  from sa obtain out where sl: "save_invoice_lines [] ?ls dbB = Inr (out, db2)"
    by (auto simp: SaveAfterAssociations_def i1 split: sum.splits)
  from assms(4) have p2: "\<forall>l \<in> set ?ls. Quantity l \<noteq> 0
           \<and> (Product l = Product_zero \<or> (Product.ID (Product l) = ProductID l \<and> ProductID l \<noteq> 0))"
    by simp
  from assms(5) have p3: "\<forall>l \<in> set ?ls. InvoiceLine.ID l \<noteq> 0 \<longrightarrow>
           InvoiceLine.ID l \<notin> set [] \<and> InvoiceLine.ID l \<le> seq_invoice_lines dbB
           \<and> InvoiceLine.ID l \<notin> InvoiceLine.ID ` set (invoice_lines dbB)"
    by (simp add: tl)
  have "map InvoiceLine.ID ?ls = map InvoiceLine.ID (InvoiceLines invoice)" by simp
  with assms(6) have p4: "distinct (filter (\<lambda>k. k \<noteq> 0) (map InvoiceLine.ID ?ls))"
    by (simp only:)
  from save_invoice_lines_mset [OF sl p2 p3 p4]
  have a: "mset (invoice_lines db2) = mset (invoice_lines db) + mset (map invoice_line_columns out)"
    and b: "map line_data out = map line_data ?ls" and c: "map InvoiceID out = map InvoiceID ?ls"
    by (simp_all add: tl)
  have b': "map line_data ?ls = map line_data (InvoiceLines invoice)"
    by (simp add: line_data_def)
  have "set (map InvoiceID out) \<subseteq> {?k}" unfolding c by auto
  then have c': "\<forall>l \<in> set out. InvoiceID l = ?k" by auto
  from save_invoice_lines_tables [OF sl] exB have ex2: "invoice_exists ?k db2"
    by (simp add: invoice_exists_def)
  have n: "invoice_lines db2 = invoice_lines db @ map invoice_line_columns out"
    if "\<forall>l \<in> set (InvoiceLines invoice). InvoiceLine.ID l = 0"
  proof -
    from that assms(4) have "\<forall>l \<in> set ?ls. InvoiceLine.ID l = 0 \<and> Quantity l \<noteq> 0" by simp
    from save_invoice_lines_new [OF sl this] show ?thesis by (simp add: tl)
  qed
  from a b b' c' ex2 n show ?thesis by auto
qed

lemma read_lines_found:
  assumes "\<not> faults e 0" "find (\<lambda>i. Invoice.ID i = k) (invoices db) = Some row"
  shows "read_lines e k db
      = Inr (map line_data (filter (\<lambda>l. InvoiceID l = k) (invoice_lines db)))"
proof -
  have "line_data (Preload_Product db l) = line_data l" for l
    by (simp add: line_data_def Preload_Product_def)
  with assms show ?thesis by (simp add: read_lines_def GetInvoice_def)
qed

lemma line_references_ok_cong:
  "invoices db' = invoices db \<Longrightarrow> products db' = products db \<Longrightarrow> foreign_keys db' = foreign_keys db \<Longrightarrow>
     line_references_ok l db' = line_references_ok l db"
  by (simp add: line_references_ok_def invoice_exists_def)

lemma save_invoice_lines_succeeds:
  assumes "\<forall>l \<in> set ls. InvoiceLine.ID l = 0 \<and> Product l = Product_zero \<and> line_references_ok l db"
  shows "\<exists>out db'. save_invoice_lines seen ls db = Inr (out, db')"
  using assms
proof (induction ls arbitrary: seen db)
  case Nil
  then show ?case by simp
next
  case (Cons l ls)
  then have l0: "InvoiceLine.ID l = 0" and pz: "Product l = Product_zero"
    and ok: "line_references_ok l db" by simp_all
  then have "\<exists>l' db1. insert_invoice_line l db = Inr (l', db1)"
    by (simp add: insert_invoice_line_def Let_def)
  then obtain l' db1 where i: "insert_invoice_line l db = Inr (l', db1)" by blast
  from insert_invoice_line_tables [OF i]
  have "\<And>x. line_references_ok x db1 = line_references_ok x db"
    by (intro line_references_ok_cong) simp_all
  with Cons.prems have "\<forall>l \<in> set ls. InvoiceLine.ID l = 0 \<and> Product l = Product_zero
      \<and> line_references_ok l db1"
    by simp
  from Cons.IH [OF this, of "InvoiceLine.ID l # seen"] obtain out db'
    where "save_invoice_lines (InvoiceLine.ID l # seen) ls db1 = Inr (out, db')" by blast
  with i l0 show ?case by (simp add: save_line_product_zero [OF pz])
qed

lemma UpdateInvoice_succeeds:
  assumes "\<not> faults e 0" "\<not> faults e 1" "Invoice.ID invoice \<noteq> 0"
    and "invoice_exists (Invoice.ID invoice) db" "references_ok invoice db"
    and "RemitInformation invoice = RemitInformation_zero" "Company invoice = Company_zero"
      "Client invoice = Company_zero"
    and "\<forall>l \<in> set (InvoiceLines invoice). InvoiceLine.ID l = 0 \<and> Product l = Product_zero
           \<and> (foreign_keys db \<longrightarrow> (\<exists>p \<in> set (products db). Product.ID p = ProductID l))"
  shows "fst (UpdateInvoice e invoice db) = None"
proof -
  let ?k = "Invoice.ID invoice"
  let ?db0 = "db\<lparr>invoice_lines := filter (\<lambda>l. InvoiceID l \<noteq> ?k) (invoice_lines db)\<rparr>"
  let ?db1 = "?db0\<lparr>invoices := map (\<lambda>r. if Invoice.ID r = ?k then invoice_columns invoice else r) (invoices db)\<rparr>"
  let ?ls = "map (\<lambda>l. l\<lparr>InvoiceID := ?k\<rparr>) (InvoiceLines invoice)"
  from assms(6-8) have sb: "SaveBeforeAssociations invoice ?db0 = Inr (invoice, ?db0)"
    by (simp add: SaveBeforeAssociations_def)
  from assms(4,5) have u: "update_invoice invoice ?db0 = Inr ?db1"
    by (simp add: update_invoice_def invoice_exists_def references_ok_def)
  from assms(4) have ex0: "invoice_exists ?k ?db0" by (simp add: invoice_exists_def)
  from update_invoice_tables [OF u, of ?k] ex0 have ex1: "invoice_exists ?k ?db1" by blast
  have "\<forall>l \<in> set ?ls. InvoiceLine.ID l = 0 \<and> Product l = Product_zero \<and> line_references_ok l ?db1"
  proof
    fix l assume "l \<in> set ?ls"
    then obtain l0 where l0: "l0 \<in> set (InvoiceLines invoice)" and l: "l = l0\<lparr>InvoiceID := ?k\<rparr>"
      by auto
    from assms(9) l0 have a: "InvoiceLine.ID l0 = 0" and z: "Product l0 = Product_zero"
      and b: "foreign_keys db \<longrightarrow> (\<exists>p \<in> set (products db). Product.ID p = ProductID l0)"
      by blast+
    have "line_references_ok l ?db1"
      unfolding line_references_ok_def using b ex1 by (simp add: l)
    with a z l show "InvoiceLine.ID l = 0 \<and> Product l = Product_zero \<and> line_references_ok l ?db1"
      by simp
  qed
  from save_invoice_lines_succeeds [OF this, of "[]"] obtain out db2
    where sl: "save_invoice_lines [] ?ls ?db1 = Inr (out, db2)" by blast
  have sa: "SaveAfterAssociations invoice ?db1 = Inr (invoice\<lparr>InvoiceLines := out\<rparr>, db2)"
    by (simp only: SaveAfterAssociations_def sl sum.case prod.case)
  have sv: "Save e invoice ?db0 = Inr (invoice\<lparr>InvoiceLines := out\<rparr>, db2)"
    using assms(3) ex0 by (simp only: Save_def sb u sa sum.case prod.case if_False if_True)
  have d: "delete_invoice_lines ?k db = Inr ?db0" by (simp add: delete_invoice_lines_def)
  show ?thesis
    using assms(1,2) by (simp only: UpdateInvoice_def exec_def d sv if_False sum.case prod.case fst_conv)
qed

text \<open>
  C2, as the specification words it, fails. A replacement line with quantity 0 is read
  back with quantity 1, the default of the column. A replacement line that carries the key
  of a line of another invoice is not inserted: that row is moved to the updated invoice
  and read back with its old quantity and description, and the other invoice has lost it.
\<close>

theorem UpdateInvoice_counterexample:
  "map line_data (InvoiceLines zero_quantity_request) = [(1, 0, Some ''Updated line'')]
   \<and> fst (UpdateInvoice no_faults zero_quantity_request (example_db True NO_ACTION)) = None
   \<and> read_lines no_faults 1 (snd (UpdateInvoice no_faults zero_quantity_request (example_db True NO_ACTION)))
       = Inr [(1, 1, Some ''Updated line'')]
   \<and> map line_data (InvoiceLines foreign_line_request) = [(1, 5, Some ''Updated line'')]
   \<and> read_lines no_faults 2 two_invoices_db = Inr [(1, 7, None)]
   \<and> fst (UpdateInvoice no_faults foreign_line_request two_invoices_db) = None
   \<and> read_lines no_faults 1 (snd (UpdateInvoice no_faults foreign_line_request two_invoices_db))
       = Inr [(1, 7, None)]
   \<and> read_lines no_faults 2 (snd (UpdateInvoice no_faults foreign_line_request two_invoices_db))
       = Inr []"
  by code_simp

text \<open>
  C2, amended. Let an invoice exist in the store under a key other than 0, with whatever
  lines, and let it be updated with replacement lines of which each has a quantity other
  than zero, names its product by \<open>ProductID\<close> (a nested product, if any, has that same
  key), and either has no key or has a key that the table has given out before and that no
  line of another invoice has, no key occurring twice. If the update succeeds, reading the
  invoice returns exactly the replacement lines and none of the old ones, in the order of
  the request if all of them are new. If the update fails at any step, the store is as
  before: delete and save are one transaction. The update does succeed when the store does
  not fail, the request nests no other struct, its lines are new and the rows it refers to
  exist (\<open>UpdateInvoice_succeeds\<close>).
\<close>

theorem UpdateInvoice_replaces_lines:
  assumes "invoice_exists (Invoice.ID invoice) db" and "Invoice.ID invoice \<noteq> 0"
    and "\<forall>l \<in> set (InvoiceLines invoice). Quantity l \<noteq> 0
           \<and> (Product l = Product_zero \<or> (Product.ID (Product l) = ProductID l \<and> ProductID l \<noteq> 0))"
    and "\<forall>l \<in> set (InvoiceLines invoice). InvoiceLine.ID l \<noteq> 0 \<longrightarrow>
           InvoiceLine.ID l \<le> seq_invoice_lines db
           \<and> (\<forall>r \<in> set (invoice_lines db). InvoiceLine.ID r = InvoiceLine.ID l \<longrightarrow>
                 InvoiceID r = Invoice.ID invoice)"
    and "distinct (filter (\<lambda>k. k \<noteq> 0) (map InvoiceLine.ID (InvoiceLines invoice)))"
  shows "(fst (UpdateInvoice e invoice db) = None \<and> \<not> faults e' 0 \<longrightarrow>
            (\<exists>xs. read_lines e' (Invoice.ID invoice) (snd (UpdateInvoice e invoice db)) = Inr xs
               \<and> mset xs = mset (map line_data (InvoiceLines invoice))
               \<and> ((\<forall>l \<in> set (InvoiceLines invoice). InvoiceLine.ID l = 0) \<longrightarrow>
                     xs = map line_data (InvoiceLines invoice))))
         \<and> (fst (UpdateInvoice e invoice db) \<noteq> None \<longrightarrow> snd (UpdateInvoice e invoice db) = db)"
proof -
  let ?k = "Invoice.ID invoice"
  let ?db1 = "db\<lparr>invoice_lines := filter (\<lambda>l. InvoiceID l \<noteq> ?k) (invoice_lines db)\<rparr>"
  from UpdateInvoice_cases [of e invoice db] show ?thesis
  proof (elim disjE exE conjE)
    fix err assume "UpdateInvoice e invoice db = (Some err, db)"
    then show ?thesis by simp
  next
    fix invoice' db2
    assume s: "Save e invoice ?db1 = Inr (invoice', db2)"
      and r: "UpdateInvoice e invoice db = (None, db2)"
    from assms(1) have ex1: "invoice_exists ?k ?db1" by (simp add: invoice_exists_def)
    from assms(4) have k1: "\<forall>l \<in> set (InvoiceLines invoice). InvoiceLine.ID l \<noteq> 0 \<longrightarrow>
           InvoiceLine.ID l \<le> seq_invoice_lines ?db1
           \<and> InvoiceLine.ID l \<notin> InvoiceLine.ID ` set (invoice_lines ?db1)"
      by (auto simp: image_iff)
    from Save_existing [OF s assms(2) ex1 assms(3) k1 assms(5)] obtain out
      where a: "mset (invoice_lines db2) = mset (invoice_lines ?db1) + mset (map invoice_line_columns out)"
        and b: "map line_data out = map line_data (InvoiceLines invoice)"
        and c: "\<forall>l \<in> set out. InvoiceID l = ?k"
        and ex2: "invoice_exists ?k db2"
        and n: "(\<forall>l \<in> set (InvoiceLines invoice). InvoiceLine.ID l = 0) \<longrightarrow>
                 invoice_lines db2 = invoice_lines ?db1 @ map invoice_line_columns out"
      by blast
    from find_invoice [OF ex2] obtain row
      where f: "find (\<lambda>i. Invoice.ID i = ?k) (invoices db2) = Some row" by blast
    let ?xs = "map line_data (filter (\<lambda>l. InvoiceID l = ?k) (invoice_lines db2))"
    have old: "filter (\<lambda>l. InvoiceID l = ?k) (invoice_lines ?db1) = []"
      by (simp add: filter_empty_conv)
    from c have new: "filter (\<lambda>l. InvoiceID l = ?k) (map invoice_line_columns out)
        = map invoice_line_columns out"
      by (simp add: filter_id_conv invoice_line_columns_def)
    have ld: "map line_data (map invoice_line_columns out) = map line_data out"
      by (simp add: line_data_def invoice_line_columns_def)
    have "mset (filter (\<lambda>l. InvoiceID l = ?k) (invoice_lines db2))
        = mset (filter (\<lambda>l. InvoiceID l = ?k) (invoice_lines ?db1))
          + mset (filter (\<lambda>l. InvoiceID l = ?k) (map invoice_line_columns out))"
      by (simp only: mset_filter a filter_union_mset)
    then have "mset (filter (\<lambda>l. InvoiceID l = ?k) (invoice_lines db2))
        = mset (map invoice_line_columns out)"
      by (simp only: old new mset.simps add_0)
    then have "image_mset line_data (mset (filter (\<lambda>l. InvoiceID l = ?k) (invoice_lines db2)))
        = image_mset line_data (mset (map invoice_line_columns out))"
      by (rule arg_cong)
    then have "mset ?xs = mset (map line_data (map invoice_line_columns out))"
      by (simp only: mset_map)
    then have m: "mset ?xs = mset (map line_data (InvoiceLines invoice))"
      by (simp only: ld b)
    have o: "?xs = map line_data (InvoiceLines invoice)"
      if "\<forall>l \<in> set (InvoiceLines invoice). InvoiceLine.ID l = 0"
    proof -
      from n that have "invoice_lines db2 = invoice_lines ?db1 @ map invoice_line_columns out"
        by blast
      then have "filter (\<lambda>l. InvoiceID l = ?k) (invoice_lines db2) = map invoice_line_columns out"
        by (simp only: filter_append old new append_Nil)
      then show ?thesis by (simp only: ld b)
    qed
    have "read_lines e' ?k db2 = Inr ?xs" if "\<not> faults e' 0"
      using read_lines_found [OF that f] .
    with m o show ?thesis by (simp add: r)
  qed
qed

theorem UpdateInvoice_replaces_lines_witness:
  "read_lines no_faults 1 two_invoices_db = Inr [(1, 1, None)]
   \<and> fst (UpdateInvoice no_faults update_request two_invoices_db) = None
   \<and> read_lines no_faults 1 (snd (UpdateInvoice no_faults update_request two_invoices_db))
       = Inr [(1, 5, Some ''Updated line'')]
   \<and> fst (UpdateInvoice no_faults own_line_request two_invoices_db) = None
   \<and> (\<exists>xs. read_lines no_faults 1 (snd (UpdateInvoice no_faults own_line_request two_invoices_db)) = Inr xs
         \<and> mset xs = {#(1, 5, Some ''Updated line''), (1, 2, None)#})
   \<and> fst (UpdateInvoice (no_faults\<lparr>faults := (\<lambda>k. k = 1)\<rparr>) update_request two_invoices_db)
       = Some ErrStore
   \<and> snd (UpdateInvoice (no_faults\<lparr>faults := (\<lambda>k. k = 1)\<rparr>) update_request two_invoices_db)
       = two_invoices_db"
proof -
  have ex: "invoice_exists (Invoice.ID update_request) two_invoices_db"
    "invoice_exists (Invoice.ID own_line_request) two_invoices_db"
    by code_simp+
  have nz: "Invoice.ID update_request \<noteq> 0" "Invoice.ID own_line_request \<noteq> 0"
    by code_simp+
  have k: "Invoice.ID update_request = 1" "Invoice.ID own_line_request = 1"
    by code_simp+
  have q: "\<forall>l \<in> set (InvoiceLines update_request). Quantity l \<noteq> 0
           \<and> (Product l = Product_zero \<or> (Product.ID (Product l) = ProductID l \<and> ProductID l \<noteq> 0))"
    "\<forall>l \<in> set (InvoiceLines own_line_request). Quantity l \<noteq> 0
           \<and> (Product l = Product_zero \<or> (Product.ID (Product l) = ProductID l \<and> ProductID l \<noteq> 0))"
    by (simp_all add: update_request_def own_line_request_def Invoice_zero_def InvoiceLine_zero_def)
  have h: "\<forall>l \<in> set (InvoiceLines update_request). InvoiceLine.ID l \<noteq> 0 \<longrightarrow>
           InvoiceLine.ID l \<le> seq_invoice_lines two_invoices_db
           \<and> (\<forall>r \<in> set (invoice_lines two_invoices_db). InvoiceLine.ID r = InvoiceLine.ID l \<longrightarrow>
                 InvoiceID r = Invoice.ID update_request)"
    "\<forall>l \<in> set (InvoiceLines own_line_request). InvoiceLine.ID l \<noteq> 0 \<longrightarrow>
           InvoiceLine.ID l \<le> seq_invoice_lines two_invoices_db
           \<and> (\<forall>r \<in> set (invoice_lines two_invoices_db). InvoiceLine.ID r = InvoiceLine.ID l \<longrightarrow>
                 InvoiceID r = Invoice.ID own_line_request)"
    by code_simp+
  have d: "distinct (filter (\<lambda>k. k \<noteq> 0) (map InvoiceLine.ID (InvoiceLines update_request)))"
    "distinct (filter (\<lambda>k. k \<noteq> 0) (map InvoiceLine.ID (InvoiceLines own_line_request)))"
    by (simp_all add: update_request_def own_line_request_def Invoice_zero_def InvoiceLine_zero_def)
  have new: "\<forall>l \<in> set (InvoiceLines update_request). InvoiceLine.ID l = 0"
    by (simp add: update_request_def Invoice_zero_def InvoiceLine_zero_def)
  have ok: "fst (UpdateInvoice no_faults update_request two_invoices_db) = None"
    "fst (UpdateInvoice no_faults own_line_request two_invoices_db) = None"
    by code_simp+
  have ko: "fst (UpdateInvoice (no_faults\<lparr>faults := (\<lambda>k. k = 1)\<rparr>) update_request two_invoices_db)
      = Some ErrStore"
    by code_simp
  have nf: "\<not> faults no_faults 0" by (simp add: no_faults_def)
  have before: "read_lines no_faults 1 two_invoices_db = Inr [(1, 1, None)]"
    by code_simp
  have req: "map line_data (InvoiceLines update_request) = [(1, 5, Some ''Updated line'')]"
    "map line_data (InvoiceLines own_line_request) = [(1, 5, Some ''Updated line''), (1, 2, None)]"
    by (simp_all add: update_request_def own_line_request_def Invoice_zero_def InvoiceLine_zero_def
          line_data_def)
  from UpdateInvoice_replaces_lines [OF ex(1) nz(1) q(1) h(1) d(1), of no_faults no_faults] ok(1) nf new
  have a: "read_lines no_faults 1 (snd (UpdateInvoice no_faults update_request two_invoices_db))
       = Inr [(1, 5, Some ''Updated line'')]"
    by (auto simp: k req)
  from UpdateInvoice_replaces_lines [OF ex(2) nz(2) q(2) h(2) d(2), of no_faults no_faults] ok(2) nf
  have b: "\<exists>xs. read_lines no_faults 1 (snd (UpdateInvoice no_faults own_line_request two_invoices_db)) = Inr xs
         \<and> mset xs = {#(1, 5, Some ''Updated line''), (1, 2, None)#}"
    by (auto simp: k req)
  from UpdateInvoice_replaces_lines [OF ex(1) nz(1) q(1) h(1) d(1),
      of "no_faults\<lparr>faults := (\<lambda>k. k = 1)\<rparr>" no_faults] ko
  have c: "snd (UpdateInvoice (no_faults\<lparr>faults := (\<lambda>k. k = 1)\<rparr>) update_request two_invoices_db)
       = two_invoices_db"
    by simp
  from before ok a b ko c show ?thesis by (simp only: simp_thms)
qed

section \<open>Unique identifiers\<close>

lemma version_byte: "((x AND 0x0f) OR 0x40 :: 8 word) \<noteq> 0"
proof
  assume "(x AND 0x0f) OR 0x40 = (0 :: 8 word)"
  then have "bit ((x AND 0x0f) OR 0x40 :: 8 word) 6 = bit (0 :: 8 word) 6" by simp
  then show False by (simp add: bit_simps)
qed

lemma version_mask: "(((x AND 0x0f) OR 0x40) AND 0x0f :: 8 word) = x AND 0x0f"
proof -
  have "(64 :: 8 word) AND 0x0f = 0" by simp
  then show ?thesis by (simp add: bit.conj_disj_distrib2 and.assoc)
qed

lemma variant_mask: "(((x AND 0x3f) OR 0x80) AND 0x3f :: 8 word) = x AND 0x3f"
proof -
  have "(128 :: 8 word) AND 0x3f = 0" by simp
  then show ?thesis by (simp add: bit.conj_disj_distrib2 and.assoc)
qed

lemma uuid_New_nonzero: "uuid_New r \<noteq> UUID_zero"
proof
  assume "uuid_New r = UUID_zero"
  then have "uuid_New r ! 6 = UUID_zero ! 6" by simp
  then show False using version_byte [of "r 6"]
    by (simp add: uuid_New_def Let_def UUID_zero_def)
qed

lemma uuid_random_bits_New: "uuid_random_bits (uuid_New r) = uuid_random_bits (map r [0..<16])"
  by (simp add: uuid_New_def uuid_random_bits_def Let_def version_mask variant_mask list_update_swap)

lemma uuid_New_random_bits:
  "uuid_New r = (uuid_random_bits (map r [0..<16]))
     [6 := uuid_random_bits (map r [0..<16]) ! 6 OR 0x40,
      8 := uuid_random_bits (map r [0..<16]) ! 8 OR 0x80]"
  unfolding uuid_New_def uuid_random_bits_def Let_def
  by (rule nth_equalityI) (simp_all add: nth_list_update)

lemma uuid_New_eq_iff:
  "uuid_New r1 = uuid_New r2
     \<longleftrightarrow> uuid_random_bits (map r1 [0..<16]) = uuid_random_bits (map r2 [0..<16])"
proof
  assume "uuid_New r1 = uuid_New r2"
  then have "uuid_random_bits (uuid_New r1) = uuid_random_bits (uuid_New r2)" by simp
  then show "uuid_random_bits (map r1 [0..<16]) = uuid_random_bits (map r2 [0..<16])"
    by (simp only: uuid_random_bits_New)
next
  assume "uuid_random_bits (map r1 [0..<16]) = uuid_random_bits (map r2 [0..<16])"
  then show "uuid_New r1 = uuid_New r2"
    by (simp only: uuid_New_random_bits [of r1] uuid_New_random_bits [of r2])
qed

lemma insert_invoice_row:
  assumes "insert_invoice nw invoice db = Inr (invoice', db')"
  shows "UUID invoice' = UUID invoice \<and> invoice_columns invoice' \<in> set (invoices db')"
  using assms by (auto simp: insert_invoice_def Let_def set_insort_key split: if_splits)

lemma SaveAfterAssociations_row:
  assumes "SaveAfterAssociations invoice db = Inr (invoice', db')"
  shows "UUID invoice' = UUID invoice \<and> Invoice.ID invoice' = Invoice.ID invoice
         \<and> invoices db' = invoices db"
proof -
  from assms obtain ls where
    s: "save_invoice_lines [] (map (\<lambda>l. l\<lparr>InvoiceID := Invoice.ID invoice\<rparr>) (InvoiceLines invoice)) db
          = Inr (ls, db')" and i: "invoice' = invoice\<lparr>InvoiceLines := ls\<rparr>"
    by (auto simp: SaveAfterAssociations_def split: sum.splits)
  from save_invoice_lines_tables [OF s] i show ?thesis by simp
qed

lemma Create_row:
  assumes "Create nw invoice db = Inr (invoice', db')"
  shows "UUID invoice' = UUID invoice
         \<and> (\<exists>row \<in> set (invoices db'). Invoice.ID row = Invoice.ID invoice' \<and> UUID row = UUID invoice')"
proof -
  from assms obtain i0 db0 i1 db1 where z: "SaveBeforeAssociations invoice db = Inr (i0, db0)"
    and a: "insert_invoice nw i0 db0 = Inr (i1, db1)"
    and b: "SaveAfterAssociations i1 db1 = Inr (invoice', db')"
    by (auto simp: Create_def split: sum.splits)
  from SaveBeforeAssociations_tables [OF z] have u0: "UUID i0 = UUID invoice" by simp
  from insert_invoice_row [OF a] SaveAfterAssociations_row [OF b] u0
  have u: "UUID invoice' = UUID invoice" and r: "invoice_columns i1 \<in> set (invoices db')"
    and k: "Invoice.ID invoice' = Invoice.ID i1" "UUID invoice' = UUID i1" by simp_all
  have "Invoice.ID (invoice_columns i1) = Invoice.ID invoice' \<and> UUID (invoice_columns i1) = UUID invoice'"
    using k by (simp add: invoice_columns_def)
  with r u show ?thesis by blast
qed

lemma CreateInvoice_uuid:
  "UUID (fst (snd (CreateInvoice e invoice db))) = UUID (BeforeCreate (rander e) invoice)"
  by (auto simp: CreateInvoice_def Let_def exec_def split: sum.splits dest: Create_row)

lemma CreateInvoice_row:
  assumes "fst (CreateInvoice e invoice db) = None"
  shows "\<exists>row \<in> set (invoices (snd (snd (CreateInvoice e invoice db)))).
           Invoice.ID row = Invoice.ID (fst (snd (CreateInvoice e invoice db)))
           \<and> UUID row = UUID (fst (snd (CreateInvoice e invoice db)))"
proof -
  from assms obtain invoice' db' where
    c: "Create (now e) (BeforeCreate (rander e) invoice) db = Inr (invoice', db')"
    and r: "CreateInvoice e invoice db = (None, invoice', db')"
    by (auto simp: CreateInvoice_def Let_def exec_def split: sum.splits if_splits)
  from Create_row [OF c] show ?thesis by (auto simp: r)
qed

text \<open>
  C8, as the specification words it, fails in its last part: nothing but the random source
  keeps two generated identifiers apart. When the source delivers the same bytes for two
  creations, both succeed and the two invoices, stored under the keys 2 and 3, carry the
  same identifier.
\<close>

theorem CreateInvoice_same_uuid_counterexample:
  "UUID new_invoice = UUID_zero
   \<and> fst (CreateInvoice no_faults new_invoice (example_db True NO_ACTION)) = None
   \<and> fst (CreateInvoice no_faults new_invoice after_first_create) = None
   \<and> Invoice.ID (fst (snd (CreateInvoice no_faults new_invoice (example_db True NO_ACTION)))) = 2
   \<and> Invoice.ID (fst (snd (CreateInvoice no_faults new_invoice after_first_create))) = 3
   \<and> UUID (fst (snd (CreateInvoice no_faults new_invoice (example_db True NO_ACTION))))
       = UUID (fst (snd (CreateInvoice no_faults new_invoice after_first_create)))
   \<and> UUID_String (UUID (fst (snd (CreateInvoice no_faults new_invoice after_first_create))))
       = ''00112233-4455-4677-8899-aabbccddeeff''"
  by code_simp

text \<open>
  C8, amended. Creating an invoice assigns the unique identifier exactly when it is unset: a
  zero identifier is replaced by a newly generated one, which is never zero; an identifier
  supplied by the caller is kept; the row inserted carries the identifier of the returned
  struct. Two invoices created without identifier both get a non-zero identifier, and the
  two identifiers differ exactly when the random source delivers different random bits for
  the two creations.
\<close>

theorem CreateInvoice_assigns_uuid:
  "(UUID invoice = UUID_zero \<longrightarrow>
      UUID (fst (snd (CreateInvoice e invoice db))) = uuid_New (rander e)
      \<and> UUID (fst (snd (CreateInvoice e invoice db))) \<noteq> UUID_zero)
   \<and> (UUID invoice \<noteq> UUID_zero \<longrightarrow> UUID (fst (snd (CreateInvoice e invoice db))) = UUID invoice)
   \<and> (fst (CreateInvoice e invoice db) = None \<longrightarrow>
        (\<exists>row \<in> set (invoices (snd (snd (CreateInvoice e invoice db)))).
           Invoice.ID row = Invoice.ID (fst (snd (CreateInvoice e invoice db)))
           \<and> UUID row = UUID (fst (snd (CreateInvoice e invoice db)))))
   \<and> (UUID invoice = UUID_zero \<and> UUID invoice2 = UUID_zero \<longrightarrow>
        (UUID (fst (snd (CreateInvoice e invoice db))) \<noteq> UUID (fst (snd (CreateInvoice e2 invoice2 db2)))
           \<longleftrightarrow> uuid_random_bits (map (rander e) [0..<16]) \<noteq> uuid_random_bits (map (rander e2) [0..<16]))
        \<and> UUID (fst (snd (CreateInvoice e invoice db))) \<noteq> UUID_zero
        \<and> UUID (fst (snd (CreateInvoice e2 invoice2 db2))) \<noteq> UUID_zero)"
  using CreateInvoice_row [of e invoice db] uuid_New_nonzero [of "rander e"]
    uuid_New_nonzero [of "rander e2"] uuid_New_eq_iff [of "rander e" "rander e2"]
  by (simp add: CreateInvoice_uuid BeforeCreate_def)

theorem CreateInvoice_assigns_uuid_witness:
  "UUID new_invoice = UUID_zero
   \<and> fst (CreateInvoice no_faults new_invoice (example_db True NO_ACTION)) = None
   \<and> UUID_String (UUID (fst (snd (CreateInvoice no_faults new_invoice (example_db True NO_ACTION)))))
       = ''00112233-4455-4677-8899-aabbccddeeff''
   \<and> UUID (fst (snd (CreateInvoice no_faults new_invoice (example_db True NO_ACTION))))
      \<noteq> UUID (fst (snd (CreateInvoice second_env new_invoice
             (snd (snd (CreateInvoice no_faults new_invoice (example_db True NO_ACTION)))))))
   \<and> UUID (fst (snd (CreateInvoice no_faults
         (new_invoice\<lparr>UUID := uuid_New (\<lambda>k. 7)\<rparr>) (example_db True NO_ACTION))))
      = uuid_New (\<lambda>k. 7)
   \<and> (\<exists>row \<in> set (invoices (snd (snd (CreateInvoice no_faults new_invoice (example_db True NO_ACTION))))).
         UUID row = uuid_New (rander no_faults))"
proof -
  let ?inv = "new_invoice"
  let ?e2 = "second_env"
  let ?db = "example_db True NO_ACTION"
  have z: "UUID ?inv = UUID_zero" by code_simp
  have ok: "fst (CreateInvoice no_faults ?inv ?db) = None" by code_simp
  have s: "UUID_String (uuid_New (rander no_faults)) = ''00112233-4455-4677-8899-aabbccddeeff''"
    by code_simp
  have b: "uuid_random_bits (map (rander no_faults) [0..<16])
             \<noteq> uuid_random_bits (map (rander ?e2) [0..<16])"
    by code_simp
  have g: "UUID (?inv\<lparr>UUID := uuid_New (\<lambda>k. 7)\<rparr>) \<noteq> UUID_zero" by code_simp
  note first = CreateInvoice_assigns_uuid [of ?inv no_faults ?db ?inv ?e2
      "snd (snd (CreateInvoice no_faults ?inv ?db))"]
  note given = CreateInvoice_assigns_uuid [of "?inv\<lparr>UUID := uuid_New (\<lambda>k. 7)\<rparr>" no_faults ?db]
  from first z have u: "UUID (fst (snd (CreateInvoice no_faults ?inv ?db))) = uuid_New (rander no_faults)"
    by blast
  from first z b have d: "UUID (fst (snd (CreateInvoice no_faults ?inv ?db)))
      \<noteq> UUID (fst (snd (CreateInvoice ?e2 ?inv (snd (snd (CreateInvoice no_faults ?inv ?db))))))"
    by blast
  from given g have k: "UUID (fst (snd (CreateInvoice no_faults (?inv\<lparr>UUID := uuid_New (\<lambda>k. 7)\<rparr>) ?db)))
      = UUID (?inv\<lparr>UUID := uuid_New (\<lambda>k. 7)\<rparr>)"
    by blast
  have k': "UUID (?inv\<lparr>UUID := uuid_New (\<lambda>k. 7)\<rparr>) = uuid_New (\<lambda>k. 7)" by simp
  from first ok have "\<exists>row \<in> set (invoices (snd (snd (CreateInvoice no_faults ?inv ?db)))).
      UUID row = UUID (fst (snd (CreateInvoice no_faults ?inv ?db)))"
    by blast
  then have r: "\<exists>row \<in> set (invoices (snd (snd (CreateInvoice no_faults ?inv ?db)))).
      UUID row = uuid_New (rander no_faults)"
    by (simp only: u)
  show ?thesis
    using z ok d r by (simp only: u s k k' simp_thms)
qed

end
